theory Spec2Isabelle
  imports Complex_Main "HOL-Library.AList" "HOL-Library.Char_ord" "HOL-Library.List_Lexorder"
    "HOL-Library.Product_Lexorder"
begin

section \<open>Python values shared by the services\<close>

text \<open>
  A Python \<open>dict\<close> is kept as an association list in insertion order:
  \<open>d[k] = v\<close> is \<^const>\<open>AList.update\<close> (an existing key keeps its place, a new key
  goes last), \<open>del d[k]\<close> and \<open>d.pop(k, None)\<close> are \<^const>\<open>AList.delete\<close>,
  \<open>d.get(k)\<close> is \<^const>\<open>map_of\<close>, \<open>d.values()\<close> is \<open>map snd\<close>.
  Python's truth test of a string (\<open>if s:\<close>) is \<open>s \<noteq> []\<close>.
\<close>

text \<open>Python's \<open>any\<close> and \<open>all\<close> over the values of a dict.\<close>

primrec py_any :: "bool list \<Rightarrow> bool" where
  "py_any [] = False"
| "py_any (b # bs) = (b \<or> py_any bs)"

primrec py_all :: "bool list \<Rightarrow> bool" where
  "py_all [] = True"
| "py_all (b # bs) = (b \<and> py_all bs)"

text \<open>A natural number in decimal, as an f-string prints it.\<close>

definition digit_char :: "nat \<Rightarrow> char" where
  "digit_char d = char_of (48 + d)"

fun string_of_nat :: "nat \<Rightarrow> string" where
  "string_of_nat n =
     (if 10 \<le> n then string_of_nat (n div 10) @ [digit_char (n mod 10)] else [digit_char n])"

section \<open>Leader election (\<open>distributed_coordinator.py\<close>, class \<open>LeaderElection\<close>)\<close>

record LeaderElection =
  node_id :: string
  all_nodes :: "string list"
  current_leader :: "string option"
  election_in_progress :: bool

definition LeaderElection_init :: "string \<Rightarrow> string list \<Rightarrow> LeaderElection" where
  "LeaderElection_init n ns =
     \<lparr>node_id = n, all_nodes = ns, current_leader = None, election_in_progress = False\<rparr>"

text \<open>\<open>self._current_leader or self._node_id\<close>: \<open>None\<close> and the empty string are false.\<close>

definition leader_or_self :: "LeaderElection \<Rightarrow> string" where
  "leader_or_self s =
     (case current_leader s of
        None \<Rightarrow> node_id s
      | Some l \<Rightarrow> if l \<noteq> [] then l else node_id s)"

text \<open>
  Node ids are compared as Python compares strings, character by character by code; this
  is the order of lists over the order of characters. The stub of the message exchange
  records every probed node as silent.
\<close>

definition send_election_messages :: "string list \<Rightarrow> (string \<times> bool) list" where
  "send_election_messages nodes = fold (\<lambda>node responses. AList.update node False responses) nodes []"

text \<open>
  \<open>start_election\<close> returns the leader it reports and the node's new state. The
  \<open>finally\<close> block clears \<open>election_in_progress\<close> on every path past the first
  check; \<open>_announce_leadership\<close> is \<open>pass\<close> and \<open>_wait_for_leader_announcement\<close>
  only sleeps.
\<close>

definition start_election :: "LeaderElection \<Rightarrow> string \<times> LeaderElection" where
  "start_election s =
     (if election_in_progress s then (leader_or_self s, s)
      else
        let s1 = s\<lparr>election_in_progress := True\<rparr>;
            higher_priority_nodes = filter (\<lambda>node. node_id s1 < node) (all_nodes s1)
        in if higher_priority_nodes = []
           then (node_id s1,
                 s1\<lparr>current_leader := Some (node_id s1), election_in_progress := False\<rparr>)
           else
             let responses = send_election_messages higher_priority_nodes
             in if \<not> py_any (map snd responses)
                then (node_id s1,
                      s1\<lparr>current_leader := Some (node_id s1), election_in_progress := False\<rparr>)
                else (leader_or_self s1, s1\<lparr>election_in_progress := False\<rparr>))"

definition get_current_leader :: "LeaderElection \<Rightarrow> string option" where
  "get_current_leader s = current_leader s"

definition is_leader :: "LeaderElection \<Rightarrow> bool" where
  "is_leader s = (current_leader s = Some (node_id s))"

section \<open>Lock manager (\<open>concurrency_manager.py\<close>, class \<open>ConcurrencyManager\<close>)\<close>

text \<open>The exceptions the modelled code can raise, as values.\<close>

datatype exn =
    ConcurrencyError string
  | KeyError string
  | ValueError string
  | TypeError string
  | OverflowError string
  | OtherError string

datatype LockType = READ | WRITE | EXCLUSIVE

definition LockType_value :: "LockType \<Rightarrow> string" where
  "LockType_value t = (case t of READ \<Rightarrow> ''read'' | WRITE \<Rightarrow> ''write'' | EXCLUSIVE \<Rightarrow> ''exclusive'')"

record LockInfo =
  lock_id :: string
  resource_id :: string
  lock_type :: LockType
  holder_id :: string
  acquired_at :: real
  lock_timeout :: "real option"

text \<open>
  The tables of the manager. \<open>_locks\<close> is a \<open>defaultdict\<close> of \<open>defaultdict(set)\<close>:
  reading a missing resource yields an empty dict, a missing lock type an empty set. A
  Python set of lock ids is kept as a duplicate-free list; only membership and emptiness
  of it are observed.
\<close>

record ConcurrencyManager =
  locks :: "(string \<times> (LockType \<times> string list) list) list"
  lock_holders :: "(string \<times> LockInfo) list"
  lock_timeouts :: "(string \<times> real) list"
  version_tracker :: "(string \<times> int) list"

definition ConcurrencyManager_init :: ConcurrencyManager where
  "ConcurrencyManager_init = \<lparr>locks = [], lock_holders = [], lock_timeouts = [], version_tracker = []\<rparr>"

definition locks_of :: "ConcurrencyManager \<Rightarrow> string \<Rightarrow> (LockType \<times> string list) list" where
  "locks_of cm resource = (case map_of (locks cm) resource of None \<Rightarrow> [] | Some d \<Rightarrow> d)"

definition ids_of :: "(LockType \<times> string list) list \<Rightarrow> LockType \<Rightarrow> string list" where
  "ids_of d t = (case map_of d t of None \<Rightarrow> [] | Some ids \<Rightarrow> ids)"

definition set_add :: "'a \<Rightarrow> 'a list \<Rightarrow> 'a list" where
  "set_add x xs = (if x \<in> set xs then xs else xs @ [x])"

text \<open>
  The first loop of \<open>_can_acquire_lock\<close>: does a lock of the resource belong to the
  requesting holder? \<open>self._lock_holders[lock_id]\<close> raises \<open>KeyError\<close> for an id with no
  record.
\<close>

fun held_by_in :: "(string \<times> LockInfo) list \<Rightarrow> string \<Rightarrow> string list \<Rightarrow> exn + bool" where
  "held_by_in holders holder [] = Inr False"
| "held_by_in holders holder (lid # lids) =
     (case map_of holders lid of
        None \<Rightarrow> Inl (KeyError lid)
      | Some info \<Rightarrow> if holder_id info = holder then Inr True else held_by_in holders holder lids)"

fun held_by :: "(string \<times> LockInfo) list \<Rightarrow> string \<Rightarrow> (LockType \<times> string list) list \<Rightarrow> exn + bool"
where
  "held_by holders holder [] = Inr False"
| "held_by holders holder ((t, lids) # rest) =
     (case held_by_in holders holder lids of
        Inl e \<Rightarrow> Inl e
      | Inr True \<Rightarrow> Inr True
      | Inr False \<Rightarrow> held_by holders holder rest)"

text \<open>
  \<open>_can_acquire_lock\<close>. \<open>LockType.WRITE not in existing_locks\<close> tests for the key;
  \<open>any(existing_locks.values())\<close> tests for a non-empty set. Reading
  \<open>self._locks[resource_id]\<close> also creates an empty entry for an unknown resource; the
  answer is then \<open>True\<close> and \<open>acquire_lock\<close> fills that entry at once, so the model
  leaves the tables alone here.
\<close>

definition can_acquire_lock :: "ConcurrencyManager \<Rightarrow> string \<Rightarrow> LockType \<Rightarrow> string \<Rightarrow> exn + bool" where
  "can_acquire_lock cm resource t holder =
     (let existing_locks = locks_of cm resource
      in case held_by (lock_holders cm) holder existing_locks of
           Inl e \<Rightarrow> Inl e
         | Inr True \<Rightarrow> Inr True
         | Inr False \<Rightarrow>
             (case t of
                READ \<Rightarrow> Inr (map_of existing_locks WRITE = None \<and> map_of existing_locks EXCLUSIVE = None)
              | WRITE \<Rightarrow> Inr (\<not> py_any (map (\<lambda>(t', lids). lids \<noteq> []) existing_locks))
              | EXCLUSIVE \<Rightarrow> Inr (\<not> py_any (map (\<lambda>(t', lids). lids \<noteq> []) existing_locks))))"

text \<open>
  \<open>acquire_lock\<close>, with the two values it draws from outside: \<open>new_id\<close>, the string of
  \<open>uuid.uuid4()\<close>, and \<open>now\<close>, the reading of \<open>time.time()\<close>. \<open>if timeout:\<close> is false
  for \<open>None\<close> and for \<open>0\<close>.
\<close>

definition acquire_lock ::
  "ConcurrencyManager \<Rightarrow> string \<Rightarrow> LockType \<Rightarrow> string \<Rightarrow> real option \<Rightarrow> string \<Rightarrow> real \<Rightarrow>
   exn + (string \<times> ConcurrencyManager)" where
  "acquire_lock cm resource t holder tmo new_id now =
     (case can_acquire_lock cm resource t holder of
        Inl e \<Rightarrow> Inl e
      | Inr False \<Rightarrow>
          Inl (ConcurrencyError (''Cannot acquire '' @ LockType_value t @ '' lock on '' @ resource))
      | Inr True \<Rightarrow>
          let d = locks_of cm resource;
              lock_info = \<lparr>lock_id = new_id, resource_id = resource, lock_type = t,
                           holder_id = holder, acquired_at = now, lock_timeout = tmo\<rparr>
          in Inr (new_id,
                  cm\<lparr>locks := AList.update resource (AList.update t (set_add new_id (ids_of d t)) d) (locks cm),
                     lock_holders := AList.update new_id lock_info (lock_holders cm),
                     lock_timeouts :=
                       (case tmo of
                          None \<Rightarrow> lock_timeouts cm
                        | Some x \<Rightarrow> if x \<noteq> 0 then AList.update new_id (now + x) (lock_timeouts cm)
                                    else lock_timeouts cm)\<rparr>))"

definition release_lock :: "ConcurrencyManager \<Rightarrow> string \<Rightarrow> bool \<times> ConcurrencyManager" where
  "release_lock cm lid =
     (case map_of (lock_holders cm) lid of
        None \<Rightarrow> (False, cm)
      | Some lock_info \<Rightarrow>
          let resource = resource_id lock_info;
              t = lock_type lock_info;
              d = locks_of cm resource;
              lids = removeAll lid (ids_of d t);
              d' = (if lids = [] then AList.delete t d else AList.update t lids d)
          in (True,
              cm\<lparr>locks := (if d' = [] then AList.delete resource (locks cm)
                           else AList.update resource d' (locks cm)),
                 lock_holders := AList.delete lid (lock_holders cm),
                 lock_timeouts := AList.delete lid (lock_timeouts cm)\<rparr>))"

text \<open>\<open>get_lock_info\<close>: the records of all locks on a resource.\<close>

definition get_lock_info :: "ConcurrencyManager \<Rightarrow> string \<Rightarrow> LockInfo list" where
  "get_lock_info cm resource =
     concat (map (\<lambda>(t, lids). concat (map (\<lambda>lid. case map_of (lock_holders cm) lid of
                                                     None \<Rightarrow> [] | Some info \<Rightarrow> [info]) lids))
                 (locks_of cm resource))"

text \<open>Who holds which type of lock on a resource, read off \<open>get_lock_info\<close>.\<close>

definition held_on :: "ConcurrencyManager \<Rightarrow> string \<Rightarrow> (string \<times> LockType) list" where
  "held_on cm resource = map (\<lambda>info. (holder_id info, lock_type info)) (get_lock_info cm resource)"

text \<open>
  A caller's sequence of lock operations. A denied \<open>acquire_lock\<close> raises to the
  caller and leaves the tables as they were; the sequence goes on.
\<close>

datatype lock_op =
    Acquire string LockType string "real option" string real
  | Release string

fun apply_lock_op :: "ConcurrencyManager \<Rightarrow> lock_op \<Rightarrow> ConcurrencyManager" where
  "apply_lock_op cm (Acquire resource t holder tmo new_id now) =
     (case acquire_lock cm resource t holder tmo new_id now of
        Inl e \<Rightarrow> cm
      | Inr (lid, cm') \<Rightarrow> cm')"
| "apply_lock_op cm (Release lid) = snd (release_lock cm lid)"

definition run_lock_ops :: "lock_op list \<Rightarrow> ConcurrencyManager" where
  "run_lock_ops ops = foldl apply_lock_op ConcurrencyManager_init ops"

subsection \<open>Retry (\<open>execute_with_retry\<close>)\<close>

text \<open>
  The callable is run several times and may answer differently each time: \<open>func k\<close> is
  what its call number \<open>k\<close> (from 0) does.
\<close>

datatype 'a attempt = Return 'a | Raise exn

text \<open>
  The delay \<open>backoff_factor * (2 ** attempt)\<close>. \<open>backoff_factor\<close> is a float and
  \<open>2 ** attempt\<close> an exact integer, which Python converts to a float for the product:
  from \<open>2 ** 1024\<close> on the conversion raises \<open>OverflowError\<close>. Below that the
  product with a power of two is exact, or infinite when it exceeds the largest float.
\<close>

definition retry_delay :: "real \<Rightarrow> nat \<Rightarrow> exn + real" where
  "retry_delay backoff_factor attempt =
     (if 1024 \<le> attempt then Inl (OverflowError ''int too large to convert to float'')
      else Inr (backoff_factor * 2 ^ attempt))"

text \<open>
  \<open>time.sleep\<close> first converts the delay to a signed count of nanoseconds and raises
  \<open>OverflowError\<close> when it does not fit, then raises \<open>ValueError\<close> for a negative
  delay. \<open>sleep_limit\<close> is the largest delay, in seconds, that the conversion accepts
  on the platform (about \<open>9.2e9\<close> where the count has 64 bits); an infinite delay is
  beyond it. \<open>None\<close> means that the call returns.
\<close>

definition time_sleep :: "real \<Rightarrow> real \<Rightarrow> exn option" where
  "time_sleep sleep_limit d =
     (if d < - sleep_limit \<or> sleep_limit < d
      then Some (OverflowError ''timestamp too large to convert to C _PyTime_t'')
      else if d < 0 then Some (ValueError ''sleep length must be non-negative'')
      else None)"

text \<open>
  The \<open>for attempt in range(max_retries + 1)\<close> loop from \<open>attempt\<close> on. The result is
  what \<open>execute_with_retry\<close> returns or raises, the arguments of the \<open>time.sleep\<close>
  calls that returned, and the number of calls of \<open>func\<close>. An exception of the delay
  or of \<open>time.sleep\<close> is raised inside the \<open>except\<close> clause and leaves the method;
  \<open>raise last_exception\<close> after a loop that never ran raises \<open>TypeError\<close>, since
  \<open>last_exception\<close> is still \<open>None\<close>.
\<close>

function retry_loop ::
  "real \<Rightarrow> (nat \<Rightarrow> 'a attempt) \<Rightarrow> int \<Rightarrow> real \<Rightarrow> nat \<Rightarrow> exn option \<Rightarrow> real list \<Rightarrow>
   (exn + 'a) \<times> real list \<times> nat" where
  "retry_loop sleep_limit func max_retries backoff_factor attempt last_exception sleeps =
     (if int attempt < max_retries + 1
      then (case func attempt of
              Return v \<Rightarrow> (Inr v, sleeps, Suc attempt)
            | Raise (ConcurrencyError m) \<Rightarrow>
                if int attempt < max_retries
                then (case retry_delay backoff_factor attempt of
                        Inl e \<Rightarrow> (Inl e, sleeps, Suc attempt)
                      | Inr d \<Rightarrow>
                          (case time_sleep sleep_limit d of
                             Some e \<Rightarrow> (Inl e, sleeps, Suc attempt)
                           | None \<Rightarrow>
                               retry_loop sleep_limit func max_retries backoff_factor (Suc attempt)
                                 (Some (ConcurrencyError m)) (sleeps @ [d])))
                else (Inl (ConcurrencyError m), sleeps, Suc attempt)
            | Raise e \<Rightarrow> (Inl e, sleeps, Suc attempt))
      else (case last_exception of
              None \<Rightarrow> (Inl (TypeError ''exceptions must derive from BaseException''), sleeps, attempt)
            | Some e \<Rightarrow> (Inl e, sleeps, attempt)))"
  by pat_completeness auto
termination
  by (relation "measure (\<lambda>(sleep_limit, func, max_retries, backoff_factor, attempt,
        last_exception, sleeps). nat (max_retries + 1 - int attempt))") auto

definition execute_with_retry ::
  "real \<Rightarrow> (nat \<Rightarrow> 'a attempt) \<Rightarrow> int \<Rightarrow> real \<Rightarrow> (exn + 'a) \<times> real list \<times> nat" where
  "execute_with_retry sleep_limit func max_retries backoff_factor =
     retry_loop sleep_limit func max_retries backoff_factor 0 None []"

definition is_ConcurrencyError :: "'a attempt \<Rightarrow> bool" where
  "is_ConcurrencyError a = (case a of Raise (ConcurrencyError m) \<Rightarrow> True | _ \<Rightarrow> False)"

text \<open>What a call of the callable makes \<open>execute_with_retry\<close> return or raise.\<close>

definition outcome :: "'a attempt \<Rightarrow> exn + 'a" where
  "outcome a = (case a of Return v \<Rightarrow> Inr v | Raise e \<Rightarrow> Inl e)"

section \<open>Enrollment (\<open>enrollment_service.py\<close>, class \<open>EnrollmentService\<close>)\<close>

datatype EnrollmentStatus = PENDING_enrollment | CONFIRMED | WAITLISTED | DROPPED | REJECTED

text \<open>
  Of a \<open>Student\<close> the service reads only \<open>id\<close>. Of a \<open>Section\<close> it reads \<open>id\<close>,
  \<open>course_id\<close>, \<open>capacity\<close> and \<open>enrolled_count\<close>, which is the size of the
  section's own set \<open>_enrolled\<close> (\<open>core/entities.py\<close>); the service never writes to
  the section.
\<close>

record Student =
  student_id :: string

record Section =
  section_id :: string
  course_id :: string
  capacity :: int
  enrolled :: "string list"

definition enrolled_count :: "Section \<Rightarrow> int" where
  "enrolled_count section = int (length (enrolled section))"

record EnrollmentPolicy =
  policy_name :: string
  can_enroll :: "Student \<Rightarrow> Section \<Rightarrow> bool"

text \<open>
  The three default policies. \<open>PrerequisiteCheckPolicy\<close> compares the required courses
  with an empty set of completed courses, so it admits a course with prerequisites only
  when the required set is empty.
\<close>

definition PrerequisiteCheckPolicy :: "(string \<times> string list) list \<Rightarrow> EnrollmentPolicy" where
  "PrerequisiteCheckPolicy course_prerequisites =
     \<lparr>policy_name = ''PrerequisiteCheckPolicy'',
      can_enroll = (\<lambda>student section.
        case map_of course_prerequisites (course_id section) of
          None \<Rightarrow> True
        | Some required_courses \<Rightarrow> required_courses = [])\<rparr>"

definition QuotaPolicy :: "int \<Rightarrow> EnrollmentPolicy" where
  "QuotaPolicy max_enrollments =
     \<lparr>policy_name = ''QuotaPolicy'',
      can_enroll = (\<lambda>student section. enrolled_count section < max_enrollments)\<rparr>"

definition PriorityPolicy :: EnrollmentPolicy where
  "PriorityPolicy = \<lparr>policy_name = ''PriorityPolicy'', can_enroll = (\<lambda>student section. True)\<rparr>"

definition default_policies :: "EnrollmentPolicy list" where
  "default_policies =
     [PrerequisiteCheckPolicy
        [(''CS301'', [''CS201'', ''CS202'']), (''CS401'', [''CS301'']),
         (''MATH301'', [''MATH201'', ''MATH202''])],
      QuotaPolicy 30,
      PriorityPolicy]"

record EnrollmentResult =
  enr_success :: bool
  enr_status :: EnrollmentStatus
  enr_message :: string
  waitlist_position :: "nat option"

text \<open>The data of an event handed to \<open>_publish_event\<close>.\<close>

record EnrollmentEvent =
  ev_student_id :: string
  ev_section_id :: string
  ev_status :: string
  ev_waitlist_position :: "nat option"
  ev_timestamp :: real

text \<open>
  The service: \<open>_enrollments\<close> (student id to section id to status), \<open>_waitlists\<close>
  (section id to student ids in order), the policy chain, the events published so far,
  and the lock manager it was built with.
\<close>

record EnrollmentService =
  enrollments :: "(string \<times> (string \<times> EnrollmentStatus) list) list"
  waitlists :: "(string \<times> string list) list"
  policies :: "EnrollmentPolicy list"
  published :: "EnrollmentEvent list"
  concurrency_manager :: ConcurrencyManager

definition EnrollmentService_init :: "ConcurrencyManager \<Rightarrow> EnrollmentService" where
  "EnrollmentService_init cm =
     \<lparr>enrollments = [], waitlists = [], policies = default_policies, published = [],
      concurrency_manager = cm\<rparr>"

text \<open>
  What a call draws from outside: the calling thread's \<open>threading.get_ident()\<close> as
  printed, the string of \<open>uuid.uuid4()\<close> for the lock id, and the clock.
\<close>

record draw =
  thread_ident :: string
  uuid :: string
  clock :: real

definition is_enrolled :: "EnrollmentService \<Rightarrow> string \<Rightarrow> string \<Rightarrow> bool" where
  "is_enrolled svc sid secid =
     (case map_of (enrollments svc) sid of
        None \<Rightarrow> False
      | Some d \<Rightarrow> map_of d secid = Some CONFIRMED)"

definition enroll_student_direct :: "EnrollmentService \<Rightarrow> string \<Rightarrow> string \<Rightarrow> EnrollmentService" where
  "enroll_student_direct svc sid secid =
     svc\<lparr>enrollments :=
            AList.update sid
              (AList.update secid CONFIRMED
                 (case map_of (enrollments svc) sid of None \<Rightarrow> [] | Some d \<Rightarrow> d))
              (enrollments svc)\<rparr>"

definition waitlist_of :: "EnrollmentService \<Rightarrow> string \<Rightarrow> string list" where
  "waitlist_of svc secid = (case map_of (waitlists svc) secid of None \<Rightarrow> [] | Some w \<Rightarrow> w)"

text \<open>\<open>xs.index(x)\<close> for an \<open>x\<close> that is in \<open>xs\<close>: the number of elements before it.\<close>

definition index_in :: "'a list \<Rightarrow> 'a \<Rightarrow> nat" where
  "index_in xs x = length (takeWhile (\<lambda>y. y \<noteq> x) xs)"

definition add_to_waitlist :: "EnrollmentService \<Rightarrow> string \<Rightarrow> string \<Rightarrow> nat \<times> EnrollmentService" where
  "add_to_waitlist svc sid secid =
     (let w = waitlist_of svc secid;
          w' = (if sid \<in> set w then w else w @ [sid])
      in (index_in w' sid + 1, svc\<lparr>waitlists := AList.update secid w' (waitlists svc)\<rparr>))"

fun evaluate_policies :: "EnrollmentPolicy list \<Rightarrow> Student \<Rightarrow> Section \<Rightarrow> bool \<times> string" where
  "evaluate_policies [] student section = (True, ''All policies satisfied'')"
| "evaluate_policies (policy # rest) student section =
     (if \<not> can_enroll policy student section
      then (False, ''Policy violation: '' @ policy_name policy)
      else evaluate_policies rest student section)"

definition publish_event :: "EnrollmentService \<Rightarrow> EnrollmentEvent \<Rightarrow> EnrollmentService" where
  "publish_event svc ev = svc\<lparr>published := published svc @ [ev]\<rparr>"

text \<open>
  Leaving the \<open>with self._concurrency_manager.lock(...)\<close> block: the \<open>finally\<close> clause
  releases the lock when \<open>lock_id\<close> is a non-empty string.
\<close>

definition leave_lock :: "EnrollmentService \<Rightarrow> string \<Rightarrow> EnrollmentService" where
  "leave_lock svc lid =
     (if lid \<noteq> [] then svc\<lparr>concurrency_manager := snd (release_lock (concurrency_manager svc) lid)\<rparr>
      else svc)"

text \<open>
  \<open>enroll_student\<close>. A \<open>ConcurrencyError\<close> of \<open>acquire_lock\<close> is caught and reported
  as a rejection; any other exception leaves the method.
\<close>

definition enroll_student ::
  "EnrollmentService \<Rightarrow> draw \<Rightarrow> Student \<Rightarrow> Section \<Rightarrow> exn + (EnrollmentResult \<times> EnrollmentService)"
where
  "enroll_student svc dr student section =
     (if is_enrolled svc (student_id student) (section_id section)
      then Inr (\<lparr>enr_success = True, enr_status = CONFIRMED,
                 enr_message = ''Student already enrolled'', waitlist_position = None\<rparr>, svc)
      else
        case evaluate_policies (policies svc) student section of
          (False, policy_message) \<Rightarrow>
            Inr (\<lparr>enr_success = False, enr_status = REJECTED,
                  enr_message = policy_message, waitlist_position = None\<rparr>, svc)
        | (True, policy_message) \<Rightarrow>
            (case acquire_lock (concurrency_manager svc) (''enrollment_'' @ section_id section) WRITE
                    (''enrollment_service_'' @ thread_ident dr) None (uuid dr) (clock dr) of
               Inl (ConcurrencyError m) \<Rightarrow>
                 Inr (\<lparr>enr_success = False, enr_status = REJECTED,
                       enr_message = ''Concurrency error: '' @ m, waitlist_position = None\<rparr>, svc)
             | Inl e \<Rightarrow> Inl e
             | Inr (lid, cm1) \<Rightarrow>
                 let svc1 = svc\<lparr>concurrency_manager := cm1\<rparr>
                 in if enrolled_count section < capacity section
                    then
                      let svc2 = enroll_student_direct svc1 (student_id student) (section_id section);
                          svc3 = publish_event svc2
                                   \<lparr>ev_student_id = student_id student,
                                    ev_section_id = section_id section, ev_status = ''enrolled'',
                                    ev_waitlist_position = None, ev_timestamp = clock dr\<rparr>
                      in Inr (\<lparr>enr_success = True, enr_status = CONFIRMED,
                                enr_message = ''Student enrolled successfully'',
                                waitlist_position = None\<rparr>,
                              leave_lock svc3 lid)
                    else
                      let (position, svc2) = add_to_waitlist svc1 (student_id student) (section_id section);
                          svc3 = publish_event svc2
                                   \<lparr>ev_student_id = student_id student,
                                    ev_section_id = section_id section, ev_status = ''waitlisted'',
                                    ev_waitlist_position = Some position, ev_timestamp = clock dr\<rparr>
                      in Inr (\<lparr>enr_success = True, enr_status = WAITLISTED,
                                enr_message = ''Student added to waitlist at position '' @ string_of_nat position,
                                waitlist_position = Some position\<rparr>,
                              leave_lock svc3 lid)))"

text \<open>The three steps of \<open>drop_student\<close> under the lock.\<close>

definition remove_enrollment :: "EnrollmentService \<Rightarrow> string \<Rightarrow> string \<Rightarrow> EnrollmentService" where
  "remove_enrollment svc sid secid =
     (case map_of (enrollments svc) sid of
        None \<Rightarrow> svc
      | Some d \<Rightarrow>
          let d' = AList.delete secid d
          in svc\<lparr>enrollments := (if d' = [] then AList.delete sid (enrollments svc)
                                  else AList.update sid d' (enrollments svc))\<rparr>)"

definition remove_from_waitlist :: "EnrollmentService \<Rightarrow> string \<Rightarrow> string \<Rightarrow> EnrollmentService" where
  "remove_from_waitlist svc sid secid =
     (case map_of (waitlists svc) secid of
        None \<Rightarrow> svc
      | Some w \<Rightarrow> if sid \<in> set w
                  then svc\<lparr>waitlists := AList.update secid (remove1 sid w) (waitlists svc)\<rparr>
                  else svc)"

definition promote_next :: "EnrollmentService \<Rightarrow> real \<Rightarrow> string \<Rightarrow> EnrollmentService" where
  "promote_next svc now secid =
     (case map_of (waitlists svc) secid of
        None \<Rightarrow> svc
      | Some [] \<Rightarrow> svc
      | Some (next_student_id # rest) \<Rightarrow>
          publish_event
            (enroll_student_direct (svc\<lparr>waitlists := AList.update secid rest (waitlists svc)\<rparr>)
               next_student_id secid)
            \<lparr>ev_student_id = next_student_id, ev_section_id = secid,
             ev_status = ''enrolled_from_waitlist'', ev_waitlist_position = None,
             ev_timestamp = now\<rparr>)"

definition drop_student ::
  "EnrollmentService \<Rightarrow> draw \<Rightarrow> string \<Rightarrow> string \<Rightarrow> exn + (EnrollmentResult \<times> EnrollmentService)"
where
  "drop_student svc dr sid secid =
     (if \<not> is_enrolled svc sid secid
      then Inr (\<lparr>enr_success = False, enr_status = DROPPED,
                 enr_message = ''Student not enrolled in this section'',
                 waitlist_position = None\<rparr>, svc)
      else
        case acquire_lock (concurrency_manager svc) (''enrollment_'' @ secid) WRITE
               (''enrollment_service_'' @ thread_ident dr) None (uuid dr) (clock dr) of
          Inl (ConcurrencyError m) \<Rightarrow>
            Inr (\<lparr>enr_success = False, enr_status = DROPPED,
                  enr_message = ''Concurrency error: '' @ m, waitlist_position = None\<rparr>, svc)
        | Inl e \<Rightarrow> Inl e
        | Inr (lid, cm1) \<Rightarrow>
            let svc1 = svc\<lparr>concurrency_manager := cm1\<rparr>;
                svc2 = remove_enrollment svc1 sid secid;
                svc3 = remove_from_waitlist svc2 sid secid;
                svc4 = promote_next svc3 (clock dr) secid;
                svc5 = publish_event svc4
                         \<lparr>ev_student_id = sid, ev_section_id = secid, ev_status = ''dropped'',
                          ev_waitlist_position = None, ev_timestamp = clock dr\<rparr>
            in Inr (\<lparr>enr_success = True, enr_status = DROPPED,
                      enr_message = ''Student dropped successfully'', waitlist_position = None\<rparr>,
                    leave_lock svc5 lid))"

text \<open>The read-only queries.\<close>

definition status_of :: "EnrollmentService \<Rightarrow> string \<Rightarrow> string \<Rightarrow> EnrollmentStatus option" where
  "status_of svc sid secid =
     (case map_of (enrollments svc) sid of None \<Rightarrow> None | Some d \<Rightarrow> map_of d secid)"

definition get_enrollments :: "EnrollmentService \<Rightarrow> string \<Rightarrow> string list" where
  "get_enrollments svc sid =
     (case map_of (enrollments svc) sid of
        None \<Rightarrow> []
      | Some d \<Rightarrow> map fst (filter (\<lambda>(secid, st). st = CONFIRMED) d))"

definition get_waitlist_position :: "EnrollmentService \<Rightarrow> string \<Rightarrow> string \<Rightarrow> nat option" where
  "get_waitlist_position svc sid secid =
     (case map_of (waitlists svc) secid of
        None \<Rightarrow> None
      | Some w \<Rightarrow> if sid \<in> set w then Some (index_in w sid + 1) else None)"

definition get_section_enrollment_count :: "EnrollmentService \<Rightarrow> string \<Rightarrow> nat" where
  "get_section_enrollment_count svc secid =
     length (filter (\<lambda>(sid, d). map_of d secid = Some CONFIRMED) (enrollments svc))"

definition get_section_waitlist_count :: "EnrollmentService \<Rightarrow> string \<Rightarrow> nat" where
  "get_section_waitlist_count svc secid = length (waitlist_of svc secid)"

text \<open>A caller's sequence of enrollment operations, with the result of each.\<close>

datatype enrollment_op = Enroll draw Student Section | Drop draw string string

fun run_enrollment_ops ::
  "EnrollmentService \<Rightarrow> enrollment_op list \<Rightarrow> exn + (EnrollmentResult list \<times> EnrollmentService)"
where
  "run_enrollment_ops svc [] = Inr ([], svc)"
| "run_enrollment_ops svc (Enroll dr student section # ops) =
     (case enroll_student svc dr student section of
        Inl e \<Rightarrow> Inl e
      | Inr (res, svc') \<Rightarrow>
          (case run_enrollment_ops svc' ops of
             Inl e \<Rightarrow> Inl e
           | Inr (results, svc'') \<Rightarrow> Inr (res # results, svc'')))"
| "run_enrollment_ops svc (Drop dr sid secid # ops) =
     (case drop_student svc dr sid secid of
        Inl e \<Rightarrow> Inl e
      | Inr (res, svc') \<Rightarrow>
          (case run_enrollment_ops svc' ops of
             Inl e \<Rightarrow> Inl e
           | Inr (results, svc'') \<Rightarrow> Inr (res # results, svc'')))"

text \<open>The students with a confirmed record for a section, in the order of \<open>_enrollments\<close>.\<close>

definition confirmed_students :: "EnrollmentService \<Rightarrow> string \<Rightarrow> string list" where
  "confirmed_students svc secid =
     map fst (filter (\<lambda>(sid, d). map_of d secid = Some CONFIRMED) (enrollments svc))"

text \<open>
  What a run shows of the service: success, status and waitlist position of every
  result, and for one section the confirmed students and the waitlist at the end.
\<close>

definition outcome_of ::
  "exn + (EnrollmentResult list \<times> EnrollmentService) \<Rightarrow> string \<Rightarrow>
   ((bool \<times> EnrollmentStatus \<times> nat option) list \<times> string list \<times> string list) option" where
  "outcome_of r secid =
     (case r of
        Inl e \<Rightarrow> None
      | Inr (results, svc) \<Rightarrow>
          Some (map (\<lambda>res. (enr_success res, enr_status res, waitlist_position res)) results,
                confirmed_students svc secid,
                waitlist_of svc secid))"

text \<open>Inputs of the worked runs: a request thread, students, and a section as a caller passes it.\<close>

definition thread1 :: draw where
  "thread1 = \<lparr>thread_ident = ''140001'', uuid = ''5b1c0f6e-lock'', clock = 0\<rparr>"

definition full_section_service :: EnrollmentService where
  "full_section_service =
     \<lparr>enrollments = [(''A'', [(''SEC1'', CONFIRMED)])], waitlists = [(''SEC1'', [''B'', ''C''])],
      policies = default_policies, published = [], concurrency_manager = ConcurrencyManager_init\<rparr>"

definition student :: "string \<Rightarrow> Student" where
  "student sid = \<lparr>student_id = sid\<rparr>"

definition section_with :: "int \<Rightarrow> string list \<Rightarrow> Section" where
  "section_with cap already = \<lparr>section_id = ''SEC1'', course_id = ''CS101'', capacity = cap,
                               enrolled = already\<rparr>"

section \<open>Scheduling (\<open>scheduler_service.py\<close>, class \<open>SchedulerService\<close>)\<close>

datatype ScheduleStatus = DRAFT | PENDING_schedule | APPROVED | ACTIVE | CANCELLED

text \<open>
  A \<open>TimeSlot\<close>; a \<open>datetime\<close> is kept as its count of microseconds, which orders
  as the \<open>datetime\<close> does. Equality of slots is equality of the three fields, as the
  dataclass defines it.
\<close>

record TimeSlot =
  start_time :: int
  end_time :: int
  day_of_week :: int

definition overlaps_with :: "TimeSlot \<Rightarrow> TimeSlot \<Rightarrow> bool" where
  "overlaps_with slot other =
     (start_time slot < end_time other \<and> end_time slot > start_time other \<and>
      day_of_week slot = day_of_week other)"

record Room =
  room_id :: string
  room_number :: string
  room_type :: string
  room_capacity :: int
  equipment :: "string list"
  has_access_control :: bool

text \<open>
  The keys \<open>schedule_section\<close> reads from \<open>room_requirements\<close>; \<open>None\<close> is an absent
  key.
\<close>

record RoomRequirements =
  min_capacity :: "int option"
  required_room_type :: "string option"
  required_equipment :: "string list option"
  access_control :: "bool option"

record ScheduleRequest =
  req_section_id :: string
  time_slots :: "TimeSlot list"
  room_requirements :: RoomRequirements
  priority :: int
  constraints :: "string list"

text \<open>The entries of a conflicts list, by what their text is built from.\<close>

datatype conflict =
    NoSuitableRooms
  | RoomBooked string int
  | ConstraintViolation string
  | ConcurrencyConflict string

record ScheduleResult =
  sch_success :: bool
  schedule_id :: "string option"
  assigned_room :: "string option"
  assigned_times :: "TimeSlot list"
  conflicts :: "conflict list"
  sch_message :: string

text \<open>An entry of \<open>self._schedules\<close>.\<close>

record ScheduleData =
  sd_schedule_id :: string
  sd_section_id :: string
  sd_room :: Room
  sd_time_slots :: "TimeSlot list"
  sd_status :: ScheduleStatus
  sd_created_at :: real
  sd_constraints :: "string list"

text \<open>A registered \<open>Constraint\<close>: its \<open>is_satisfied\<close> on room, time slots and section id.\<close>

record Constraint =
  is_satisfied :: "Room \<Rightarrow> TimeSlot list \<Rightarrow> string \<Rightarrow> bool"

record SchedulerService =
  schedules :: "(string \<times> ScheduleData) list"
  room_assignments :: "(string \<times> TimeSlot list) list"
  registered_constraints :: "(string \<times> Constraint) list"
  rooms :: "(string \<times> Room) list"
  scheduler_cm :: ConcurrencyManager

definition SchedulerService_init :: "ConcurrencyManager \<Rightarrow> SchedulerService" where
  "SchedulerService_init cm =
     \<lparr>schedules = [], room_assignments = [], registered_constraints = [], rooms = [],
      scheduler_cm = cm\<rparr>"

definition add_room :: "SchedulerService \<Rightarrow> Room \<Rightarrow> SchedulerService" where
  "add_room svc room =
     svc\<lparr>rooms := AList.update (room_id room) room (rooms svc),
         room_assignments := AList.update (room_id room) [] (room_assignments svc)\<rparr>"

definition add_constraint :: "SchedulerService \<Rightarrow> string \<Rightarrow> Constraint \<Rightarrow> SchedulerService" where
  "add_constraint svc constraint_id c =
     svc\<lparr>registered_constraints := AList.update constraint_id c (registered_constraints svc)\<rparr>"

definition required_min_capacity :: "ScheduleRequest \<Rightarrow> int" where
  "required_min_capacity request =
     (case min_capacity (room_requirements request) of None \<Rightarrow> 1 | Some m \<Rightarrow> m)"

text \<open>The four checks of \<open>_find_suitable_rooms\<close>; a room failing one is skipped.\<close>

definition suitable :: "ScheduleRequest \<Rightarrow> Room \<Rightarrow> bool" where
  "suitable request room =
     (\<not> room_capacity room < required_min_capacity request
      \<and> (case required_room_type (room_requirements request) of
            None \<Rightarrow> True
          | Some t \<Rightarrow> \<not> (t \<noteq> [] \<and> room_type room \<noteq> t))
      \<and> (case required_equipment (room_requirements request) of
            None \<Rightarrow> True
          | Some eqs \<Rightarrow> \<not> (eqs \<noteq> [] \<and> \<not> list_all (\<lambda>eq. eq \<in> set (equipment room)) eqs))
      \<and> (case access_control (room_requirements request) of
            None \<Rightarrow> True
          | Some required \<Rightarrow> \<not> (required \<and> \<not> has_access_control room)))"

definition find_suitable_rooms :: "SchedulerService \<Rightarrow> ScheduleRequest \<Rightarrow> Room list" where
  "find_suitable_rooms svc request =
     sort_key (\<lambda>r. (\<bar>room_capacity r - required_min_capacity request\<bar>, room_number r))
       (filter (suitable request) (map snd (rooms svc)))"

text \<open>
  \<open>_check_scheduling_conflicts\<close>: one entry for every pair of a requested slot and an
  assigned slot of the room that overlap, then one for every listed, registered
  constraint that is not satisfied.
\<close>

definition check_scheduling_conflicts :: "SchedulerService \<Rightarrow> ScheduleRequest \<Rightarrow> Room \<Rightarrow> conflict list"
where
  "check_scheduling_conflicts svc request room =
     concat (map (\<lambda>time_slot.
               map (\<lambda>existing_slot. RoomBooked (room_number room) (start_time time_slot))
                 (filter (\<lambda>existing_slot. overlaps_with time_slot existing_slot)
                    (case map_of (room_assignments svc) (room_id room) of
                       None \<Rightarrow> [] | Some assigned \<Rightarrow> assigned)))
             (time_slots request))
     @ concat (map (\<lambda>constraint_id.
                 case map_of (registered_constraints svc) constraint_id of
                   None \<Rightarrow> []
                 | Some c \<Rightarrow> if \<not> is_satisfied c room (time_slots request) (req_section_id request)
                             then [ConstraintViolation constraint_id] else [])
               (constraints request))"

definition leave_scheduler_lock :: "SchedulerService \<Rightarrow> string \<Rightarrow> SchedulerService" where
  "leave_scheduler_lock svc lid =
     (if lid \<noteq> [] then svc\<lparr>scheduler_cm := snd (release_lock (scheduler_cm svc) lid)\<rparr> else svc)"

text \<open>
  \<open>schedule_section\<close>. The call draws the thread identifier, the lock id and the clock
  (\<open>dr\<close>) and the schedule id (\<open>new_schedule_id\<close>, another \<open>uuid4\<close>). Extending the
  ledger of a room id with no ledger raises \<open>KeyError\<close>; the lock is released on every
  way out of the \<open>with\<close> block.
\<close>

definition schedule_section ::
  "SchedulerService \<Rightarrow> draw \<Rightarrow> string \<Rightarrow> ScheduleRequest \<Rightarrow> exn + (ScheduleResult \<times> SchedulerService)"
where
  "schedule_section svc dr new_schedule_id request =
     (case acquire_lock (scheduler_cm svc) (''scheduling_'' @ req_section_id request) WRITE
             (''scheduler_service_'' @ thread_ident dr) None (uuid dr) (clock dr) of
        Inl (ConcurrencyError m) \<Rightarrow>
          Inr (\<lparr>sch_success = False, schedule_id = None, assigned_room = None,
                assigned_times = [], conflicts = [ConcurrencyConflict m],
                sch_message = ''Scheduling failed due to concurrency error''\<rparr>, svc)
      | Inl e \<Rightarrow> Inl e
      | Inr (lid, cm1) \<Rightarrow>
          let svc1 = svc\<lparr>scheduler_cm := cm1\<rparr>
          in case find_suitable_rooms svc1 request of
               [] \<Rightarrow>
                 Inr (\<lparr>sch_success = False, schedule_id = None, assigned_room = None,
                       assigned_times = [], conflicts = [NoSuitableRooms],
                       sch_message = ''No suitable rooms found for scheduling''\<rparr>,
                      leave_scheduler_lock svc1 lid)
             | best_room # others \<Rightarrow>
                 let found = check_scheduling_conflicts svc1 request best_room
                 in if found \<noteq> []
                    then Inr (\<lparr>sch_success = False, schedule_id = None, assigned_room = None,
                               assigned_times = [], conflicts = found,
                               sch_message = ''Scheduling conflicts detected''\<rparr>,
                              leave_scheduler_lock svc1 lid)
                    else
                      (case map_of (room_assignments svc1) (room_id best_room) of
                         None \<Rightarrow> Inl (KeyError (room_id best_room))
                       | Some assigned \<Rightarrow>
                           let schedule_data =
                                 \<lparr>sd_schedule_id = new_schedule_id,
                                  sd_section_id = req_section_id request, sd_room = best_room,
                                  sd_time_slots = time_slots request, sd_status = APPROVED,
                                  sd_created_at = clock dr, sd_constraints = constraints request\<rparr>;
                               svc2 = svc1\<lparr>schedules :=
                                             AList.update new_schedule_id schedule_data (schedules svc1),
                                           room_assignments :=
                                             AList.update (room_id best_room)
                                               (assigned @ time_slots request) (room_assignments svc1)\<rparr>
                           in Inr (\<lparr>sch_success = True, schedule_id = Some new_schedule_id,
                                     assigned_room = Some (room_id best_room),
                                     assigned_times = time_slots request, conflicts = [],
                                     sch_message = ''Section scheduled successfully''\<rparr>,
                                   leave_scheduler_lock svc2 lid)))"

text \<open>
  \<open>cancel_schedule\<close>: every slot of the schedule that is found in the room's ledger is
  removed from it once (the first equal slot), and the schedule is marked CANCELLED. The
  schedule stays in \<open>_schedules\<close>, and nothing looks at its status before.
\<close>

definition cancel_schedule :: "SchedulerService \<Rightarrow> string \<Rightarrow> exn + (bool \<times> SchedulerService)" where
  "cancel_schedule svc sid =
     (case map_of (schedules svc) sid of
        None \<Rightarrow> Inr (False, svc)
      | Some schedule_data \<Rightarrow>
          if sd_time_slots schedule_data = []
          then Inr (True, svc\<lparr>schedules :=
                      AList.update sid (schedule_data\<lparr>sd_status := CANCELLED\<rparr>) (schedules svc)\<rparr>)
          else
            (case map_of (room_assignments svc) (room_id (sd_room schedule_data)) of
               None \<Rightarrow> Inl (KeyError (room_id (sd_room schedule_data)))
             | Some assigned \<Rightarrow>
                 Inr (True,
                      svc\<lparr>room_assignments :=
                            AList.update (room_id (sd_room schedule_data))
                              (fold remove1 (sd_time_slots schedule_data) assigned)
                              (room_assignments svc),
                          schedules :=
                            AList.update sid (schedule_data\<lparr>sd_status := CANCELLED\<rparr>)
                              (schedules svc)\<rparr>)))"

definition get_room_schedule :: "SchedulerService \<Rightarrow> string \<Rightarrow> TimeSlot list" where
  "get_room_schedule svc rid =
     (case map_of (room_assignments svc) rid of None \<Rightarrow> [] | Some assigned \<Rightarrow> assigned)"

text \<open>A caller's sequence of scheduler operations.\<close>

datatype scheduler_op =
    AddRoom Room
  | Schedule draw string ScheduleRequest
  | Cancel string

fun run_scheduler_ops :: "SchedulerService \<Rightarrow> scheduler_op list \<Rightarrow> exn + (bool list \<times> SchedulerService)"
where
  "run_scheduler_ops svc [] = Inr ([], svc)"
| "run_scheduler_ops svc (AddRoom room # ops) = run_scheduler_ops (add_room svc room) ops"
| "run_scheduler_ops svc (Schedule dr new_schedule_id request # ops) =
     (case schedule_section svc dr new_schedule_id request of
        Inl e \<Rightarrow> Inl e
      | Inr (res, svc') \<Rightarrow>
          (case run_scheduler_ops svc' ops of
             Inl e \<Rightarrow> Inl e
           | Inr (oks, svc'') \<Rightarrow> Inr (sch_success res # oks, svc'')))"
| "run_scheduler_ops svc (Cancel sid # ops) =
     (case cancel_schedule svc sid of
        Inl e \<Rightarrow> Inl e
      | Inr (ok, svc') \<Rightarrow>
          (case run_scheduler_ops svc' ops of
             Inl e \<Rightarrow> Inl e
           | Inr (oks, svc'') \<Rightarrow> Inr (ok # oks, svc'')))"

text \<open>
  The schedule records that are not cancelled, each with its room and slots, and the
  invariant of the schedule table: two different records of that list in one room have
  no overlapping slots.
\<close>

definition live_schedules :: "SchedulerService \<Rightarrow> (string \<times> string \<times> TimeSlot list) list" where
  "live_schedules svc =
     map (\<lambda>(sid, sd). (sid, room_id (sd_room sd), sd_time_slots sd))
       (filter (\<lambda>(sid, sd). sd_status sd \<noteq> CANCELLED) (schedules svc))"

definition clash :: "(string \<times> string \<times> TimeSlot list) \<Rightarrow> (string \<times> string \<times> TimeSlot list) \<Rightarrow> bool" where
  "clash a b =
     (fst a \<noteq> fst b \<and> fst (snd a) = fst (snd b)
      \<and> list_ex (\<lambda>s. list_ex (\<lambda>s'. overlaps_with s s') (snd (snd b))) (snd (snd a)))"

definition no_room_overlap :: "SchedulerService \<Rightarrow> bool" where
  "no_room_overlap svc =
     (\<not> list_ex (\<lambda>a. list_ex (\<lambda>b. clash a b) (live_schedules svc)) (live_schedules svc))"

text \<open>What a run shows: the answer of every call, the live records, and the invariant.\<close>

definition scheduler_outcome ::
  "exn + (bool list \<times> SchedulerService) \<Rightarrow>
   (bool list \<times> (string \<times> string \<times> TimeSlot list) list \<times> bool) option" where
  "scheduler_outcome r =
     (case r of
        Inl e \<Rightarrow> None
      | Inr (oks, svc) \<Rightarrow> Some (oks, live_schedules svc, no_room_overlap svc))"

text \<open>Inputs of the worked run: one room, and a request for Monday 9 to 10.\<close>

definition room101 :: Room where
  "room101 = \<lparr>room_id = ''room-101'', room_number = ''101'', room_type = ''lecture'',
              room_capacity = 40, equipment = [], has_access_control = False\<rparr>"

definition monday_9_to_10 :: TimeSlot where
  "monday_9_to_10 = \<lparr>start_time = 9, end_time = 10, day_of_week = 0\<rparr>"

definition request_slot :: "string \<Rightarrow> ScheduleRequest" where
  "request_slot sec =
     \<lparr>req_section_id = sec, time_slots = [monday_9_to_10],
      room_requirements = \<lparr>min_capacity = Some 30, required_room_type = None,
                            required_equipment = None, access_control = None\<rparr>,
      priority = 0, constraints = []\<rparr>"

section \<open>Two-phase commit (\<open>distributed_coordinator.py\<close>, class \<open>TwoPhaseCommitCoordinator\<close>)\<close>

datatype CoordinationStatus = PENDING | IN_PROGRESS | COMMITTED | ABORTED | TIMEOUT

datatype OperationType = TWO_PHASE_COMMIT | CONSENSUS | LEADER_ELECTION | DISTRIBUTED_LOCK

text \<open>
  What \<open>await asyncio.wait_for(task, timeout=10.0)\<close> observes of a participant's
  coroutine: the value it returns, an exception, or nothing within the bound.
\<close>

datatype reply = Returns bool | Raises | TimesOut

text \<open>
  A \<open>DistributedParticipant\<close>: how it answers \<open>prepare(operation_id, data)\<close>,
  \<open>commit(operation_id)\<close> and \<open>abort(operation_id)\<close>. A participant answers a phase
  of one operation the same way each time it is asked.
\<close>

record 'd DistributedParticipant =
  prepare :: "string \<Rightarrow> 'd \<Rightarrow> reply"
  commit :: "string \<Rightarrow> reply"
  abort :: "string \<Rightarrow> reply"

record 'd CoordinationRequest =
  operation_id :: string
  operation_type :: OperationType
  participants :: "string list"
  data :: 'd
  timeout :: real
  retry_count :: int

record CoordinationResult =
  success :: bool
  status :: CoordinationStatus
  message :: string
  participants_results :: "(string \<times> bool) list"
  result_operation_id :: string

text \<open>An entry of \<open>self._operations\<close>.\<close>

record 'd Operation =
  op_status :: CoordinationStatus
  op_participants :: "string list"
  op_data :: 'd
  op_start_time :: real
  op_timeout :: real
  op_phase :: string

record 'd TwoPhaseCommitCoordinator =
  coordinator_id :: string
  operations :: "(string \<times> 'd Operation) list"
  registered :: "(string \<times> 'd DistributedParticipant) list"

text \<open>The calls that reach the participants, in the order the tasks are created.\<close>

datatype call = PrepareCall string | CommitCall string | AbortCall string

definition register_participant ::
  "'d TwoPhaseCommitCoordinator \<Rightarrow> string \<Rightarrow> 'd DistributedParticipant \<Rightarrow> 'd TwoPhaseCommitCoordinator"
where
  "register_participant c participant_id participant =
     c\<lparr>registered := AList.update participant_id participant (registered c)\<rparr>"

text \<open>
  The first loop of each phase: one task per listed participant that is registered
  (an unregistered id is skipped), paired with its id.
\<close>

primrec create_tasks ::
  "(string \<times> 'p) list \<Rightarrow> ('p \<Rightarrow> reply) \<Rightarrow> string list \<Rightarrow> (string \<times> reply) list" where
  "create_tasks reg call_of [] = []"
| "create_tasks reg call_of (participant_id # participant_ids) =
     (case map_of reg participant_id of
        None \<Rightarrow> create_tasks reg call_of participant_ids
      | Some p \<Rightarrow> (participant_id, call_of p) # create_tasks reg call_of participant_ids)"

text \<open>
  The second loop: the awaited value is stored under the participant's id; a timeout
  or an exception stores \<open>False\<close>.
\<close>

definition await_result :: "reply \<Rightarrow> bool" where
  "await_result r = (case r of Returns b \<Rightarrow> b | Raises \<Rightarrow> False | TimesOut \<Rightarrow> False)"

definition await_tasks :: "(string \<times> reply) list \<Rightarrow> (string \<times> bool) list" where
  "await_tasks tasks =
     fold (\<lambda>(participant_id, task) results. AList.update participant_id (await_result task) results)
       tasks []"

definition prepare_phase ::
  "'d TwoPhaseCommitCoordinator \<Rightarrow> string \<Rightarrow> string list \<Rightarrow> 'd \<Rightarrow> (string \<times> bool) list \<times> call list"
where
  "prepare_phase c oid participant_ids d =
     (let prepare_tasks = create_tasks (registered c) (\<lambda>p. prepare p oid d) participant_ids
      in (await_tasks prepare_tasks, map (PrepareCall \<circ> fst) prepare_tasks))"

definition commit_phase ::
  "'d TwoPhaseCommitCoordinator \<Rightarrow> string \<Rightarrow> string list \<Rightarrow> (string \<times> bool) list \<times> call list"
where
  "commit_phase c oid participant_ids =
     (let commit_tasks = create_tasks (registered c) (\<lambda>p. commit p oid) participant_ids
      in (await_tasks commit_tasks, map (CommitCall \<circ> fst) commit_tasks))"

definition abort_phase ::
  "'d TwoPhaseCommitCoordinator \<Rightarrow> string \<Rightarrow> string list \<Rightarrow> (string \<times> bool) list \<times> call list"
where
  "abort_phase c oid participant_ids =
     (let abort_tasks = create_tasks (registered c) (\<lambda>p. abort p oid) participant_ids
      in (await_tasks abort_tasks, map (AbortCall \<circ> fst) abort_tasks))"

definition update_operation_status ::
  "'d TwoPhaseCommitCoordinator \<Rightarrow> string \<Rightarrow> CoordinationStatus \<Rightarrow> 'd TwoPhaseCommitCoordinator"
where
  "update_operation_status c oid st =
     (case map_of (operations c) oid of
        None \<Rightarrow> c
      | Some operation \<Rightarrow>
          c\<lparr>operations := AList.update oid (operation\<lparr>op_status := st\<rparr>) (operations c)\<rparr>)"

definition get_operation_status ::
  "'d TwoPhaseCommitCoordinator \<Rightarrow> string \<Rightarrow> CoordinationStatus option" where
  "get_operation_status c oid = map_option op_status (map_of (operations c) oid)"

text \<open>
  \<open>execute_transaction\<close> at clock reading \<open>now\<close>: the result, the coordinator
  afterwards and the calls made. The three phases catch every timeout and exception of a
  participant themselves, so the two \<open>except\<close> clauses around them have nothing to catch.
\<close>

definition execute_transaction ::
  "'d TwoPhaseCommitCoordinator \<Rightarrow> real \<Rightarrow> 'd CoordinationRequest \<Rightarrow>
   CoordinationResult \<times> 'd TwoPhaseCommitCoordinator \<times> call list" where
  "execute_transaction c now request =
     (let oid = operation_id request;
          ps = participants request;
          c1 = c\<lparr>operations := AList.update oid
                  \<lparr>op_status = PENDING, op_participants = ps, op_data = data request,
                   op_start_time = now, op_timeout = timeout request, op_phase = ''prepare''\<rparr>
                  (operations c)\<rparr>;
          (prepare_results, prepare_calls) = prepare_phase c1 oid ps (data request)
      in if py_all (map snd prepare_results)
         then
           let (commit_results, commit_calls) = commit_phase c1 oid ps
           in if py_all (map snd commit_results)
              then (\<lparr>success = True, status = COMMITTED,
                     message = ''Transaction committed successfully'',
                     participants_results = commit_results, result_operation_id = oid\<rparr>,
                    update_operation_status c1 oid COMMITTED,
                    prepare_calls @ commit_calls)
              else
                let (abort_results, abort_calls) = abort_phase c1 oid ps
                in (\<lparr>success = False, status = ABORTED,
                      message = ''Transaction aborted due to commit failures'',
                      participants_results = commit_results, result_operation_id = oid\<rparr>,
                    update_operation_status c1 oid ABORTED,
                    prepare_calls @ commit_calls @ abort_calls)
         else
           let (abort_results, abort_calls) = abort_phase c1 oid ps
           in (\<lparr>success = False, status = ABORTED,
                 message = ''Transaction aborted due to prepare failures'',
                 participants_results = prepare_results, result_operation_id = oid\<rparr>,
               update_operation_status c1 oid ABORTED,
               prepare_calls @ abort_calls))"

text \<open>The listed participants that are registered: the ones every phase asks.\<close>

definition asked :: "'d TwoPhaseCommitCoordinator \<Rightarrow> string list \<Rightarrow> string list" where
  "asked c participant_ids = filter (\<lambda>pid. map_of (registered c) pid \<noteq> None) participant_ids"

text \<open>A coordinator with two registered participants, for the worked runs below.\<close>

definition always_ok :: "unit DistributedParticipant" where
  "always_ok = \<lparr>prepare = (\<lambda>oid d. Returns True), commit = (\<lambda>oid. Returns True),
                 abort = (\<lambda>oid. Returns True)\<rparr>"

definition commit_times_out :: "unit DistributedParticipant" where
  "commit_times_out = \<lparr>prepare = (\<lambda>oid d. Returns True), commit = (\<lambda>oid. TimesOut),
                        abort = (\<lambda>oid. Returns True)\<rparr>"

definition prepare_refuses :: "unit DistributedParticipant" where
  "prepare_refuses = \<lparr>prepare = (\<lambda>oid d. Returns False), commit = (\<lambda>oid. Returns True),
                       abort = (\<lambda>oid. Returns True)\<rparr>"

definition coordinator_with :: "(string \<times> unit DistributedParticipant) list \<Rightarrow> unit TwoPhaseCommitCoordinator" where
  "coordinator_with reg = \<lparr>coordinator_id = ''node-1'', operations = [], registered = reg\<rparr>"

definition request_for :: "string list \<Rightarrow> unit CoordinationRequest" where
  "request_for ps = \<lparr>operation_id = ''op-1'', operation_type = TWO_PHASE_COMMIT,
                     participants = ps, data = (), timeout = 30, retry_count = 3\<rparr>"


chapter \<open>Properties\<close>

section \<open>Leader election: every election elects the local node\<close>

lemma update_False_silent:
  "\<not> py_any (map snd rs) \<Longrightarrow> \<not> py_any (map snd (AList.update k False rs))"
  by (induction rs) auto

lemma fold_update_False_silent:
  "\<not> py_any (map snd rs) \<Longrightarrow>
   \<not> py_any (map snd (fold (\<lambda>node responses. AList.update node False responses) nodes rs))"
proof (induction nodes arbitrary: rs)
  case Nil
  then show ?case by simp
next
  case (Cons n nodes)
  from Cons.prems have "\<not> py_any (map snd (AList.update n False rs))"
    by (rule update_False_silent)
  then show ?case using Cons.IH [of "AList.update n False rs"] by simp
qed

lemma send_election_messages_silent:
  "\<not> py_any (map snd (send_election_messages nodes))"
  unfolding send_election_messages_def by (rule fold_update_False_silent) simp

text \<open>
  C10. Whatever the node id, the node set and the leader known before, a call of
  \<open>start_election\<close> made while no election is in progress (the state \<open>__init__\<close>
  builds and every call restores) returns the local node id, and afterwards
  \<open>is_leader\<close> is true, \<open>get_current_leader\<close> is the local node id and the
  in-progress flag is clear again: no probed node is ever recorded as responding.
\<close>

theorem start_election_elects_self:
  "start_election \<lparr>node_id = n, all_nodes = ns, current_leader = l,
                    election_in_progress = False\<rparr> = (r, s') \<Longrightarrow>
   r = n \<and> is_leader s' \<and> get_current_leader s' = Some n \<and> \<not> election_in_progress s'"
  using send_election_messages_silent [of "filter (\<lambda>node. n < node) ns"]
  by (auto simp: start_election_def is_leader_def get_current_leader_def Let_def
      split: if_splits)

theorem start_election_elects_self_witness:
  "start_election (LeaderElection_init ''node-1'' [''node-1'', ''node-2'', ''node-3''])
     = (''node-1'',
        \<lparr>node_id = ''node-1'', all_nodes = [''node-1'', ''node-2'', ''node-3''],
         current_leader = Some ''node-1'', election_in_progress = False\<rparr>)"
proof -
  obtain r s' where run:
    "start_election \<lparr>node_id = ''node-1'', all_nodes = [''node-1'', ''node-2'', ''node-3''],
       current_leader = None, election_in_progress = False\<rparr> = (r, s')"
    by (cases "start_election \<lparr>node_id = ''node-1'',
       all_nodes = [''node-1'', ''node-2'', ''node-3''],
       current_leader = None, election_in_progress = False\<rparr>") 
  have st: "node_id s' = ''node-1'' \<and> all_nodes s' = [''node-1'', ''node-2'', ''node-3'']"
    using run by (auto simp: start_election_def Let_def split: if_splits)
  from start_election_elects_self [OF run] st
  have "r = ''node-1''" and "s' = \<lparr>node_id = ''node-1'',
      all_nodes = [''node-1'', ''node-2'', ''node-3''],
      current_leader = Some ''node-1'', election_in_progress = False\<rparr>"
    by (auto simp: is_leader_def get_current_leader_def)
  with run show ?thesis by (simp add: LeaderElection_init_def)
qed


section \<open>Two-phase commit: outcomes and the calls made\<close>

lemma py_all_iff: "py_all bs \<longleftrightarrow> (\<forall>b\<in>set bs. b)"
  by (induction bs) auto

lemma set_update_consistent:
  "\<forall>(k', v')\<in>set al. v' = g k' \<Longrightarrow> set (AList.update k (g k) al) = insert (k, g k) (set al)"
  by (induction al) auto

text \<open>
  When the task of a key is a function \<open>h\<close> of the key, the dict filled by the await
  loop holds exactly the awaited value of every task (a repeated id overwrites its entry
  with the same value).
\<close>

lemma set_fold_update_consistent:
  "\<forall>(k, t)\<in>set tasks. t = h k \<Longrightarrow> \<forall>(k, v)\<in>set acc. v = w (h k) \<Longrightarrow>
   set (fold (\<lambda>(k, t) results. AList.update k (w t) results) tasks acc)
     = set acc \<union> (\<lambda>(k, t). (k, w t)) ` set tasks"
proof (induction tasks arbitrary: acc)
  case Nil
  then show ?case by simp
next
  case (Cons kt tasks)
  obtain k t where kt: "kt = (k, t)" by (cases kt)
  with Cons.prems have t: "t = h k" by simp
  have upd: "set (AList.update k (w (h k)) acc) = insert (k, w (h k)) (set acc)"
    using Cons.prems(2) set_update_consistent [of acc "\<lambda>k. w (h k)" k] by simp
  have "\<forall>(k, v)\<in>set (AList.update k (w t) acc). v = w (h k)"
    using upd t Cons.prems(2) by auto
  with Cons.IH [of "AList.update k (w t) acc"] Cons.prems(1)
  have "set (fold (\<lambda>(k, t) results. AList.update k (w t) results) tasks (AList.update k (w t) acc))
     = set (AList.update k (w t) acc) \<union> (\<lambda>(k, t). (k, w t)) ` set tasks"
    by simp
  then show ?case using upd t kt by auto
qed

lemma create_tasks_set:
  "set (create_tasks reg f ps) = {(pid, f p) | pid p. pid \<in> set ps \<and> map_of reg pid = Some p}"
  by (induction ps) (auto split: option.splits)

lemma create_tasks_ids:
  "map fst (create_tasks reg f ps) = filter (\<lambda>pid. map_of reg pid \<noteq> None) ps"
  by (induction ps) (auto split: option.splits)

lemma await_result_iff: "await_result r \<longleftrightarrow> r = Returns True"
  by (cases r) (auto simp: await_result_def)

text \<open>\<open>all(results.values())\<close> after a phase: every asked participant returned \<open>True\<close>.\<close>

lemma await_tasks_all:
  "py_all (map snd (await_tasks (create_tasks reg f ps))) \<longleftrightarrow>
   (\<forall>pid\<in>set ps. \<forall>p. map_of reg pid = Some p \<longrightarrow> f p = Returns True)"
proof -
  let ?tasks = "create_tasks reg f ps"
  have fun_of_key: "\<forall>(k, t)\<in>set ?tasks. t = f (the (map_of reg k))"
    by (auto simp: create_tasks_set)
  have "set (await_tasks ?tasks) = (\<lambda>(k, t). (k, await_result t)) ` set ?tasks"
    unfolding await_tasks_def
    using set_fold_update_consistent [OF fun_of_key, of "[]" await_result] by simp
  then have "py_all (map snd (await_tasks ?tasks)) \<longleftrightarrow> (\<forall>(k, t)\<in>set ?tasks. await_result t)"
    by (force simp: py_all_iff)
  also have "\<dots> \<longleftrightarrow> (\<forall>pid\<in>set ps. \<forall>p. map_of reg pid = Some p \<longrightarrow> await_result (f p))"
    by (auto simp: create_tasks_set)
  also have "\<dots> \<longleftrightarrow> (\<forall>pid\<in>set ps. \<forall>p. map_of reg pid = Some p \<longrightarrow> f p = Returns True)"
    by (simp add: await_result_iff)
  finally show ?thesis .
qed

lemma get_status_after_update:
  "get_operation_status
     (update_operation_status (c\<lparr>operations := AList.update oid operation (operations c)\<rparr>) oid st) oid
   = Some st"
  by (simp add: get_operation_status_def update_operation_status_def update_conv')

lemmas phase_defs = prepare_phase_def commit_phase_def abort_phase_def
lemmas run_defs = coordinator_with_def request_for_def always_ok_def commit_times_out_def
  prepare_refuses_def await_tasks_def await_result_def update_operation_status_def
  get_operation_status_def asked_def

text \<open>
  C4. In a run of \<open>execute_transaction\<close>: if every asked participant (listed in the
  request and registered) returns \<open>True\<close> from both \<open>prepare\<close> and \<open>commit\<close>, the
  result reports success with status COMMITTED and the operation table records
  COMMITTED. If some asked participant does not return \<open>True\<close> from \<open>prepare\<close>
  (it returns \<open>False\<close>, raises or times out), the result is a failure with status
  ABORTED, the table records ABORTED, the calls made are one \<open>prepare\<close> to every asked
  participant followed by one \<open>abort\<close> to every asked participant, and no \<open>commit\<close>
  call is made.
\<close>

theorem two_phase_commit_outcomes:
  assumes run: "execute_transaction c now request = (res, c', calls)"
  shows "((\<forall>pid\<in>set (participants request). \<forall>p. map_of (registered c) pid = Some p \<longrightarrow>
             prepare p (operation_id request) (data request) = Returns True \<and>
             commit p (operation_id request) = Returns True)
          \<longrightarrow> success res \<and> status res = COMMITTED \<and>
              get_operation_status c' (operation_id request) = Some COMMITTED)
       \<and> ((\<exists>pid\<in>set (participants request). \<exists>p. map_of (registered c) pid = Some p \<and>
             prepare p (operation_id request) (data request) \<noteq> Returns True)
          \<longrightarrow> \<not> success res \<and> status res = ABORTED \<and>
              get_operation_status c' (operation_id request) = Some ABORTED \<and>
              calls = map PrepareCall (asked c (participants request)) @
                      map AbortCall (asked c (participants request)) \<and>
              (\<forall>pid. CommitCall pid \<notin> set calls))"
  using run
  by (auto simp: execute_transaction_def Let_def phase_defs
      await_tasks_all get_status_after_update asked_def create_tasks_ids
      simp flip: map_map split: if_splits)

theorem two_phase_commit_outcomes_witness:
  "status (fst (execute_transaction (coordinator_with [(''p1'', always_ok), (''p2'', always_ok)])
             0 (request_for [''p1'', ''p2'']))) = COMMITTED
   \<and> status (fst (execute_transaction
             (coordinator_with [(''p1'', always_ok), (''p2'', prepare_refuses)])
             0 (request_for [''p1'', ''p2'']))) = ABORTED
   \<and> snd (snd (execute_transaction
             (coordinator_with [(''p1'', always_ok), (''p2'', prepare_refuses)])
             0 (request_for [''p1'', ''p2''])))
       = [PrepareCall ''p1'', PrepareCall ''p2'', AbortCall ''p1'', AbortCall ''p2'']"
proof -
  let ?ok = "execute_transaction (coordinator_with [(''p1'', always_ok), (''p2'', always_ok)])
               0 (request_for [''p1'', ''p2''])"
  let ?no = "execute_transaction (coordinator_with [(''p1'', always_ok), (''p2'', prepare_refuses)])
               0 (request_for [''p1'', ''p2''])"
  have ok: "?ok = (fst ?ok, fst (snd ?ok), snd (snd ?ok))" and
       no: "?no = (fst ?no, fst (snd ?no), snd (snd ?no))"
    by simp_all
  have "status (fst ?ok) = COMMITTED"
    using two_phase_commit_outcomes [OF ok] by (simp add: run_defs)
  moreover have "status (fst ?no) = ABORTED \<and>
      snd (snd ?no) = [PrepareCall ''p1'', PrepareCall ''p2'', AbortCall ''p1'', AbortCall ''p2'']"
    using two_phase_commit_outcomes [OF no] by (simp add: run_defs)
  ultimately show ?thesis by simp
qed

text \<open>
  C3, as the code has it. In a run where every asked participant returns \<open>True\<close> from
  \<open>prepare\<close> and some asked participant does not return \<open>True\<close> from \<open>commit\<close>
  (it returns \<open>False\<close>, raises or times out), the result is a failure with status
  ABORTED, the operation table records ABORTED, and the calls made are one \<open>prepare\<close>,
  then one \<open>commit\<close>, then one \<open>abort\<close> to every asked participant: the abort phase
  is broadcast to all of them, those whose commit succeeded included.
\<close>

theorem commit_failure_aborts_everyone:
  assumes run: "execute_transaction c now request = (res, c', calls)"
    and prepared: "\<forall>pid\<in>set (participants request). \<forall>p. map_of (registered c) pid = Some p \<longrightarrow>
             prepare p (operation_id request) (data request) = Returns True"
    and commit_fails: "\<exists>pid\<in>set (participants request). \<exists>p. map_of (registered c) pid = Some p \<and>
             commit p (operation_id request) \<noteq> Returns True"
  shows "\<not> success res \<and> status res = ABORTED \<and>
         get_operation_status c' (operation_id request) = Some ABORTED \<and>
         calls = map PrepareCall (asked c (participants request)) @
                 map CommitCall (asked c (participants request)) @
                 map AbortCall (asked c (participants request))"
proof -
  have all_prepared: "py_all (map snd (await_tasks (create_tasks (registered c)
      (\<lambda>p. prepare p (operation_id request) (data request)) (participants request))))"
    using prepared by (simp add: await_tasks_all)
  have not_all_committed: "\<not> py_all (map snd (await_tasks (create_tasks (registered c)
      (\<lambda>p. commit p (operation_id request)) (participants request))))"
    using commit_fails by (simp add: await_tasks_all)
  show ?thesis
    using run all_prepared not_all_committed
    by (auto simp: execute_transaction_def Let_def phase_defs get_status_after_update asked_def
        create_tasks_ids simp flip: map_map)
qed

theorem commit_failure_aborts_everyone_witness:
  "status (fst (execute_transaction
             (coordinator_with [(''p1'', always_ok), (''p2'', commit_times_out)])
             0 (request_for [''p1'', ''p2'']))) = ABORTED
   \<and> snd (snd (execute_transaction
             (coordinator_with [(''p1'', always_ok), (''p2'', commit_times_out)])
             0 (request_for [''p1'', ''p2''])))
       = [PrepareCall ''p1'', PrepareCall ''p2'', CommitCall ''p1'', CommitCall ''p2'',
          AbortCall ''p1'', AbortCall ''p2'']"
proof -
  let ?run = "execute_transaction (coordinator_with [(''p1'', always_ok), (''p2'', commit_times_out)])
               0 (request_for [''p1'', ''p2''])"
  have run: "?run = (fst ?run, fst (snd ?run), snd (snd ?run))"
    by simp
  show ?thesis
    using commit_failure_aborts_everyone [OF run] by (simp add: run_defs)
qed

text \<open>
  C3 as stated fails: with two participants that both prepare, where the first commits
  and the commit of the second times out, the first participant (whose commit returned
  \<open>True\<close>) receives an \<open>abort\<close> call.
\<close>

theorem abort_reaches_committed_participant:
  "prepare always_ok ''op-1'' () = Returns True
   \<and> prepare commit_times_out ''op-1'' () = Returns True
   \<and> commit always_ok ''op-1'' = Returns True
   \<and> commit commit_times_out ''op-1'' = TimesOut
   \<and> status (fst (execute_transaction
             (coordinator_with [(''p1'', always_ok), (''p2'', commit_times_out)])
             0 (request_for [''p1'', ''p2'']))) = ABORTED
   \<and> AbortCall ''p1'' \<in> set (snd (snd (execute_transaction
             (coordinator_with [(''p1'', always_ok), (''p2'', commit_times_out)])
             0 (request_for [''p1'', ''p2'']))))"
  by (simp add: execute_transaction_def Let_def phase_defs run_defs)


section \<open>Lock manager: a reentrant request bypasses the conflict check\<close>

lemmas lock_defs = run_lock_ops_def ConcurrencyManager_init_def acquire_lock_def
  can_acquire_lock_def locks_of_def ids_of_def set_add_def release_lock_def held_on_def
  get_lock_info_def LockType_value_def

text \<open>
  A holder with no lock on a resource is refused a WRITE lock while another holder has a
  READ lock on it: the conflict check works when it is reached.
\<close>

lemma write_denied_to_newcomer:
  "acquire_lock (run_lock_ops [Acquire ''R1'' READ ''A'' None ''L1'' 0])
     ''R1'' WRITE ''B'' None ''L2'' 0
   = Inl (ConcurrencyError ''Cannot acquire write lock on R1'')"
  by (simp add: lock_defs)

text \<open>
  In general: when no lock of the resource belongs to the requester, a WRITE or EXCLUSIVE
  request is granted exactly when no lock id is recorded for the resource at all.
\<close>

lemma newcomer_needs_free_resource:
  assumes "held_by (lock_holders cm) holder (locks_of cm resource) = Inr False"
    and "t \<noteq> READ"
  shows "can_acquire_lock cm resource t holder
           = Inr (\<not> py_any (map (\<lambda>(t', lids). lids \<noteq> []) (locks_of cm resource)))"
  using assms by (cases t) (simp_all add: can_acquire_lock_def)

text \<open>But a requester who holds a lock of the resource is granted any lock on it.\<close>

lemma holder_is_always_granted:
  assumes "held_by (lock_holders cm) holder (locks_of cm resource) = Inr True"
  shows "can_acquire_lock cm resource t holder = Inr True"
  using assms by (simp add: can_acquire_lock_def)

text \<open>
  C1 fails on the code. Holders A and B both take a READ lock on R1; A then asks for a
  WRITE lock and gets it, because the first loop of \<open>_can_acquire_lock\<close> returns
  \<open>True\<close> as soon as the requester holds any lock on the resource, before B's READ
  lock is looked at. B's request for a WRITE lock is granted the same way. A then holds
  WRITE while B holds READ, and in the end both hold WRITE at once.
\<close>

theorem reentrant_write_breaks_exclusion:
  "held_on (run_lock_ops
      [Acquire ''R1'' READ ''A'' None ''L1'' 0,
       Acquire ''R1'' READ ''B'' None ''L2'' 0,
       Acquire ''R1'' WRITE ''A'' None ''L3'' 0]) ''R1''
     = [(''A'', READ), (''B'', READ), (''A'', WRITE)]
   \<and> held_on (run_lock_ops
      [Acquire ''R1'' READ ''A'' None ''L1'' 0,
       Acquire ''R1'' READ ''B'' None ''L2'' 0,
       Acquire ''R1'' WRITE ''A'' None ''L3'' 0,
       Acquire ''R1'' WRITE ''B'' None ''L4'' 0]) ''R1''
     = [(''A'', READ), (''B'', READ), (''A'', WRITE), (''B'', WRITE)]
   \<and> can_acquire_lock (run_lock_ops
      [Acquire ''R1'' READ ''A'' None ''L1'' 0,
       Acquire ''R1'' READ ''B'' None ''L2'' 0]) ''R1'' WRITE ''A'' = Inr True"
  by (simp add: lock_defs)

section \<open>Retry: calls, sleeps and the result\<close>

declare retry_loop.simps [simp del]

lemma retry_loop_stops:
  assumes "int k \<le> max_retries" and "\<not> is_ConcurrencyError (func k)"
  shows "retry_loop lmt func max_retries b k le sleeps = (outcome (func k), sleeps, Suc k)"
  using assms
  by (subst retry_loop.simps)
     (auto simp: is_ConcurrencyError_def outcome_def split: attempt.splits exn.splits)

lemma retry_loop_exhausted:
  assumes "int k = max_retries" and "is_ConcurrencyError (func k)"
  shows "retry_loop lmt func max_retries b k le sleeps = (outcome (func k), sleeps, Suc k)"
  using assms
  by (subst retry_loop.simps)
     (auto simp: is_ConcurrencyError_def outcome_def split: attempt.splits exn.splits)

text \<open>A delay that is not negative and within the limit is slept.\<close>

lemma time_sleep_returns:
  assumes "0 \<le> b" and "b * 2 ^ k \<le> lmt"
  shows "time_sleep lmt (b * 2 ^ k) = None"
proof -
  have nonneg: "0 \<le> b * 2 ^ k"
    using assms(1) by simp
  with assms(2) have "0 \<le> lmt"
    by linarith
  with nonneg assms(2) show ?thesis
    by (simp add: time_sleep_def not_less)
qed

lemma retry_loop_retries:
  assumes "int k < max_retries" and "is_ConcurrencyError (func k)" and "0 \<le> b"
    and "k < 1024" and "b * 2 ^ k \<le> lmt"
  shows "\<exists>e. retry_loop lmt func max_retries b k le sleeps
           = retry_loop lmt func max_retries b (Suc k) (Some e) (sleeps @ [b * 2 ^ k])"
proof -
  have delay: "retry_delay b k = Inr (b * 2 ^ k)"
    using assms(4) by (simp add: retry_delay_def)
  have slept: "time_sleep lmt (b * 2 ^ k) = None"
    using assms(3,5) by (rule time_sleep_returns)
  show ?thesis
    using assms(1,2) delay slept
    by (subst retry_loop.simps)
       (auto simp: is_ConcurrencyError_def split: attempt.splits exn.splits)
qed

text \<open>
  The loop from attempt \<open>a\<close>, when the calls \<open>a, \<dots>, k - 1\<close> raise
  \<open>ConcurrencyError\<close>, the delay after each of them is slept, and call \<open>k\<close> is the
  one that ends it.
\<close>

lemma retry_loop_run:
  assumes "0 \<le> b" and "a \<le> k" and "int k \<le> max_retries"
    and "\<forall>i. a \<le> i \<and> i < k \<longrightarrow> is_ConcurrencyError (func i)"
    and "\<not> is_ConcurrencyError (func k) \<or> int k = max_retries"
    and "\<forall>i<k. i < 1024 \<and> b * 2 ^ i \<le> lmt"
  shows "retry_loop lmt func max_retries b a le sleeps
           = (outcome (func k), sleeps @ map (\<lambda>i. b * 2 ^ i) [a..<k], Suc k)"
  using assms(2,4)
proof (induction "k - a" arbitrary: a le sleeps)
  case 0
  then have "a = k" by simp
  then show ?case
    using assms(3,5) retry_loop_stops [of k max_retries func lmt b le sleeps]
      retry_loop_exhausted [of k max_retries func lmt b le sleeps]
    by auto
next
  case (Suc d)
  then have lt: "a < k" and ce: "is_ConcurrencyError (func a)" by auto
  with assms(3) have "int a < max_retries" by simp
  moreover from lt assms(6) have "a < 1024" and "b * 2 ^ a \<le> lmt" by auto
  ultimately obtain e where step: "retry_loop lmt func max_retries b a le sleeps
       = retry_loop lmt func max_retries b (Suc a) (Some e) (sleeps @ [b * 2 ^ a])"
    using retry_loop_retries [of a max_retries func b lmt le sleeps] ce assms(1) by blast
  have "retry_loop lmt func max_retries b (Suc a) (Some e) (sleeps @ [b * 2 ^ a])
       = (outcome (func k), (sleeps @ [b * 2 ^ a]) @ map (\<lambda>i. b * 2 ^ i) [Suc a..<k], Suc k)"
    using Suc.hyps(2) Suc.prems lt by (intro Suc.hyps(1)) auto
  with step lt show ?case by (simp add: upt_conv_Cons)
qed

text \<open>Outside the intended arguments: a negative \<open>max_retries\<close> never calls the callable.\<close>

lemma negative_max_retries:
  "max_retries < 0 \<Longrightarrow>
   execute_with_retry lmt func max_retries b
     = (Inl (TypeError ''exceptions must derive from BaseException''), [], 0)"
  unfolding execute_with_retry_def by (subst retry_loop.simps) simp

text \<open>
  A delay that \<open>time.sleep\<close> does not accept ends the retries: after one
  \<open>ConcurrencyError\<close> with a backoff of \<open>1e10\<close> seconds the \<open>OverflowError\<close> of
  \<open>time.sleep\<close> is raised and the callable is not called again. The same happens at
  attempt 1024 for any backoff, where the delay itself cannot be computed.
\<close>

lemma delay_beyond_limit_raises:
  "execute_with_retry 9223372036
     (\<lambda>k. if k < 1 then Raise (ConcurrencyError ''busy'') else Return (7::int)) 3 10000000000
   = (Inl (OverflowError ''timestamp too large to convert to C _PyTime_t''), [], 1)"
  unfolding execute_with_retry_def
  by (subst retry_loop.simps) (simp add: retry_delay_def time_sleep_def)

lemma delay_overflow_at_1024:
  assumes "int attempt < max_retries" and "func attempt = Raise (ConcurrencyError m)"
    and "1024 \<le> attempt"
  shows "retry_loop lmt func max_retries b attempt le sleeps
           = (Inl (OverflowError ''int too large to convert to float''), sleeps, Suc attempt)"
  using assms by (subst retry_loop.simps) (simp add: retry_delay_def)

text \<open>
  C8. Let \<open>backoff_factor\<close> be not negative, let the calls \<open>0, \<dots>, k - 1\<close> of the
  callable raise \<open>ConcurrencyError\<close>, and let the delay
  \<open>backoff_factor * 2 ^ i\<close> after each of them be one that can be computed and that
  \<open>time.sleep\<close> accepts (\<open>i < 1024\<close> and the delay within the platform's limit). Then
  \<^item> if call \<open>k\<close> returns \<open>v\<close> and \<open>k \<le> max_retries\<close>, \<open>execute_with_retry\<close>
    returns \<open>v\<close>;
  \<^item> if call \<open>k\<close> raises another exception and \<open>k \<le> max_retries\<close>, that exception
    is raised at once;
  \<^item> if \<open>k = max_retries\<close> and call \<open>k\<close> raises \<open>ConcurrencyError\<close> too, that last
    \<open>ConcurrencyError\<close> is raised;
  and in each case the callable was called \<open>k + 1\<close> times and the sleeps made were
  \<open>backoff_factor * 2 ^ i\<close> for \<open>i = 0, \<dots>, k - 1\<close>, one before each retry.
\<close>

theorem execute_with_retry_contract:
  assumes "0 \<le> backoff_factor"
    and "\<forall>i<k. i < 1024 \<and> backoff_factor * 2 ^ i \<le> sleep_limit"
  shows "((\<forall>i<k. is_ConcurrencyError (func i)) \<and> int k \<le> max_retries \<and> func k = Return v
            \<longrightarrow> execute_with_retry sleep_limit func max_retries backoff_factor
                  = (Inr v, map (\<lambda>i. backoff_factor * 2 ^ i) [0..<k], Suc k))
       \<and> ((\<forall>i<k. is_ConcurrencyError (func i)) \<and> int k \<le> max_retries \<and> func k = Raise e
            \<and> \<not> is_ConcurrencyError (Raise e)
            \<longrightarrow> execute_with_retry sleep_limit func max_retries backoff_factor
                  = (Inl e, map (\<lambda>i. backoff_factor * 2 ^ i) [0..<k], Suc k))
       \<and> ((\<forall>i<k. is_ConcurrencyError (func i)) \<and> int k = max_retries
            \<and> func k = Raise (ConcurrencyError m)
            \<longrightarrow> execute_with_retry sleep_limit func max_retries backoff_factor
                  = (Inl (ConcurrencyError m), map (\<lambda>i. backoff_factor * 2 ^ i) [0..<k], Suc k))"
  using retry_loop_run [of backoff_factor 0 k max_retries func sleep_limit None "[]"] assms
  by (auto simp: execute_with_retry_def outcome_def is_ConcurrencyError_def)

text \<open>
  Three runs with a backoff of half a second and the limit of 64-bit nanoseconds: success
  at the third call, retries exhausted after one retry, and another exception at the
  second call.
\<close>

theorem execute_with_retry_contract_witness:
  "execute_with_retry 9223372036
       (\<lambda>k. if k < 2 then Raise (ConcurrencyError ''busy'') else Return (42::int)) 3 (1/2)
     = (Inr 42, [1/2, 1], 3)
   \<and> execute_with_retry 9223372036
       (\<lambda>k. if k < 2 then Raise (ConcurrencyError ''busy'') else Return (42::int)) 1 (1/2)
     = (Inl (ConcurrencyError ''busy''), [1/2], 2)
   \<and> execute_with_retry 9223372036
       (\<lambda>k. if k < 1 then Raise (ConcurrencyError ''busy'')
             else (Raise (KeyError ''x'') :: int attempt)) 3 (1/2)
     = (Inl (KeyError ''x''), [1/2], 2)"
proof -
  have b: "(0::real) \<le> 1/2" by simp
  have two: "\<forall>i<2. i < 1024 \<and> (1/2) * 2 ^ i \<le> (9223372036::real)"
  proof (intro allI impI)
    fix i :: nat
    assume "i < 2"
    then have "i = 0 \<or> i = 1" by auto
    then show "i < 1024 \<and> (1/2) * 2 ^ i \<le> (9223372036::real)" by auto
  qed
  have one: "\<forall>i<1. i < 1024 \<and> (1/2) * 2 ^ i \<le> (9223372036::real)"
    by simp
  have "execute_with_retry 9223372036
       (\<lambda>k. if k < 2 then Raise (ConcurrencyError ''busy'') else Return (42::int)) 3 (1/2)
     = (Inr 42, [1/2, 1], 3)"
    using execute_with_retry_contract [OF b two,
        of "\<lambda>k. if k < 2 then Raise (ConcurrencyError ''busy'') else Return (42::int)" 3 42]
    by (simp add: is_ConcurrencyError_def upt_rec)
  moreover have "execute_with_retry 9223372036
       (\<lambda>k. if k < 2 then Raise (ConcurrencyError ''busy'') else Return (42::int)) 1 (1/2)
     = (Inl (ConcurrencyError ''busy''), [1/2], 2)"
    using execute_with_retry_contract [OF b one,
        of "\<lambda>k. if k < 2 then Raise (ConcurrencyError ''busy'') else Return (42::int)" 1 _ _
           "''busy''"]
    by (simp add: is_ConcurrencyError_def upt_rec)
  moreover have "execute_with_retry 9223372036
       (\<lambda>k. if k < 1 then Raise (ConcurrencyError ''busy'')
             else (Raise (KeyError ''x'') :: int attempt)) 3 (1/2)
     = (Inl (KeyError ''x''), [1/2], 2)"
    using execute_with_retry_contract [OF b one,
        of "\<lambda>k. if k < 1 then Raise (ConcurrencyError ''busy'')
                 else (Raise (KeyError ''x'') :: int attempt)" 3 _ "KeyError ''x''"]
    by (simp add: is_ConcurrencyError_def upt_rec)
  ultimately show ?thesis by simp
qed

section \<open>Enrollment: idempotent enrolment, drop and promotion\<close>

lemma delete_empty_other: "AList.delete k d = [] \<Longrightarrow> c \<noteq> k \<Longrightarrow> map_of d c = None"
proof -
  assume a: "AList.delete k d = []" and b: "c \<noteq> k"
  have "map_of (AList.delete k d) c = map_of d c" using b by (simp add: delete_conv')
  with a show ?thesis by simp
qed

lemma status_of_remove_enrollment:
  "status_of (remove_enrollment svc sid secid) s c
     = (if s = sid \<and> c = secid then None else status_of svc s c)"
  by (auto simp: status_of_def remove_enrollment_def Let_def update_conv' delete_conv'
      delete_empty_other split: option.splits)

lemma waitlists_remove_enrollment [simp]:
  "waitlists (remove_enrollment svc sid secid) = waitlists svc"
  by (simp add: remove_enrollment_def Let_def split: option.splits)

lemma waitlist_of_remove_enrollment [simp]:
  "waitlist_of (remove_enrollment svc sid secid) c = waitlist_of svc c"
  by (simp add: waitlist_of_def)

lemma status_of_remove_from_waitlist [simp]:
  "status_of (remove_from_waitlist svc sid secid) s c = status_of svc s c"
  by (simp add: status_of_def remove_from_waitlist_def split: option.splits)

lemma waitlist_of_remove_from_waitlist:
  "waitlist_of (remove_from_waitlist svc sid secid) c
     = (if c = secid then remove1 sid (waitlist_of svc c) else waitlist_of svc c)"
  by (auto simp: waitlist_of_def remove_from_waitlist_def update_conv' remove1_idem
      split: option.splits)

lemma status_of_enroll_student_direct:
  "status_of (enroll_student_direct svc s0 c0) s c
     = (if s = s0 \<and> c = c0 then Some CONFIRMED else status_of svc s c)"
  by (auto simp: status_of_def enroll_student_direct_def update_conv' split: option.splits)

lemma waitlist_of_enroll_student_direct [simp]:
  "waitlist_of (enroll_student_direct svc s0 c0) c = waitlist_of svc c"
  by (simp add: waitlist_of_def enroll_student_direct_def)

lemma status_of_publish_event [simp]: "status_of (publish_event svc ev) s c = status_of svc s c"
  by (simp add: status_of_def publish_event_def)

lemma waitlist_of_publish_event [simp]: "waitlist_of (publish_event svc ev) c = waitlist_of svc c"
  by (simp add: waitlist_of_def publish_event_def)

lemma status_of_leave_lock [simp]: "status_of (leave_lock svc lid) s c = status_of svc s c"
  by (simp add: status_of_def leave_lock_def)

lemma waitlist_of_leave_lock [simp]: "waitlist_of (leave_lock svc lid) c = waitlist_of svc c"
  by (simp add: waitlist_of_def leave_lock_def)

lemma status_of_cm_update [simp]:
  "status_of (svc\<lparr>concurrency_manager := cm\<rparr>) s c = status_of svc s c"
  by (simp add: status_of_def)

lemma waitlist_of_cm_update [simp]:
  "waitlist_of (svc\<lparr>concurrency_manager := cm\<rparr>) c = waitlist_of svc c"
  by (simp add: waitlist_of_def)

lemma waitlist_of_waitlists_update:
  "waitlist_of (svc\<lparr>waitlists := AList.update secid w (waitlists svc)\<rparr>) c
     = (if c = secid then w else waitlist_of svc c)"
  by (simp add: waitlist_of_def update_conv')

lemma status_of_waitlists_update [simp]:
  "status_of (svc\<lparr>waitlists := w\<rparr>) s c = status_of svc s c"
  by (simp add: status_of_def)

lemma promote_next_unfold:
  assumes "waitlist_of svc secid = next_student # rest"
  shows "promote_next svc now secid =
          publish_event
            (enroll_student_direct (svc\<lparr>waitlists := AList.update secid rest (waitlists svc)\<rparr>)
               next_student secid)
            \<lparr>ev_student_id = next_student, ev_section_id = secid,
             ev_status = ''enrolled_from_waitlist'', ev_waitlist_position = None,
             ev_timestamp = now\<rparr>"
  using assms by (simp add: promote_next_def waitlist_of_def split: option.splits)

lemma promote_next_head:
  assumes "waitlist_of svc secid = next_student # rest"
  shows "waitlist_of (promote_next svc now secid) c
           = (if c = secid then rest else waitlist_of svc c)"
    and "status_of (promote_next svc now secid) s c
           = (if s = next_student \<and> c = secid then Some CONFIRMED else status_of svc s c)"
  by (simp_all add: promote_next_unfold [OF assms] waitlist_of_waitlists_update
      status_of_enroll_student_direct)

lemma acquire_lock_granted:
  "can_acquire_lock cm resource t holder = Inr True \<Longrightarrow>
   \<exists>cm'. acquire_lock cm resource t holder tmo new_id now = Inr (new_id, cm')"
  by (simp add: acquire_lock_def Let_def)

text \<open>
  C6, as the code has it. Let a student be confirmed in a section and not on that
  section's waitlist, let the waitlist be non-empty, and let the section's enrollment
  lock be free for the calling thread. Then \<open>drop_student\<close> succeeds, the head of the
  waitlist becomes confirmed, the waitlist is left with the students behind the head in
  their order, the dropped student has no record for the section any more, and no other
  status and no other waitlist changes. \<open>drop_student\<close> does not look at the section's
  capacity: this holds for a full section and for any other.
\<close>

theorem drop_promotes_waitlist_head:
  assumes confirmed: "is_enrolled svc sid secid"
    and waitlist: "waitlist_of svc secid = next_student # rest"
    and not_waiting: "sid \<notin> set (waitlist_of svc secid)"
    and lock_free: "can_acquire_lock (concurrency_manager svc) (''enrollment_'' @ secid) WRITE
                      (''enrollment_service_'' @ thread_ident dr) = Inr True"
  shows "\<exists>svc'. drop_student svc dr sid secid
                  = Inr (\<lparr>enr_success = True, enr_status = DROPPED,
                          enr_message = ''Student dropped successfully'',
                          waitlist_position = None\<rparr>, svc')
           \<and> waitlist_of svc' secid = rest
           \<and> status_of svc' next_student secid = Some CONFIRMED
           \<and> status_of svc' sid secid = None
           \<and> (\<forall>s c. (s, c) \<noteq> (sid, secid) \<and> (s, c) \<noteq> (next_student, secid)
                  \<longrightarrow> status_of svc' s c = status_of svc s c)
           \<and> (\<forall>c. c \<noteq> secid \<longrightarrow> waitlist_of svc' c = waitlist_of svc c)"
proof -
  from acquire_lock_granted [OF lock_free]
  obtain cm1 where acq: "acquire_lock (concurrency_manager svc) (''enrollment_'' @ secid) WRITE
      (''enrollment_service_'' @ thread_ident dr) None (uuid dr) (clock dr) = Inr (uuid dr, cm1)"
    by blast
  define svc3 where "svc3 = remove_from_waitlist
      (remove_enrollment (svc\<lparr>concurrency_manager := cm1\<rparr>) sid secid) sid secid"
  have w3: "waitlist_of svc3 c = waitlist_of svc c" for c
    using not_waiting
    by (simp add: svc3_def waitlist_of_remove_from_waitlist remove1_idem)
  have s3: "status_of svc3 s c = (if s = sid \<and> c = secid then None else status_of svc s c)" for s c
    by (simp add: svc3_def status_of_remove_enrollment)
  have head: "waitlist_of svc3 secid = next_student # rest"
    using waitlist by (simp add: w3)
  have ne: "next_student \<noteq> sid"
    using waitlist not_waiting by auto
  define svc' where "svc' = leave_lock (publish_event (promote_next svc3 (clock dr) secid)
      \<lparr>ev_student_id = sid, ev_section_id = secid, ev_status = ''dropped'',
       ev_waitlist_position = None, ev_timestamp = clock dr\<rparr>) (uuid dr)"
  have run: "drop_student svc dr sid secid
      = Inr (\<lparr>enr_success = True, enr_status = DROPPED,
              enr_message = ''Student dropped successfully'', waitlist_position = None\<rparr>, svc')"
    using confirmed acq by (simp add: drop_student_def Let_def svc'_def svc3_def)
  have "waitlist_of svc' c = (if c = secid then rest else waitlist_of svc c)" for c
    by (simp add: svc'_def promote_next_head [OF head] w3)
  moreover have "status_of svc' s c
      = (if s = next_student \<and> c = secid then Some CONFIRMED
         else if s = sid \<and> c = secid then None else status_of svc s c)" for s c
    by (simp add: svc'_def promote_next_head [OF head] s3)
  ultimately show ?thesis
    using run ne by auto
qed

text \<open>
  C9. In every state in which the student is confirmed in the section,
  \<open>enroll_student\<close> returns success with status CONFIRMED and the whole service
  (confirmed records, waitlists, policies, published events, lock tables) is unchanged.
\<close>

theorem enroll_confirmed_is_idempotent:
  assumes "is_enrolled svc (student_id st) (section_id section)"
  shows "enroll_student svc dr st section
           = Inr (\<lparr>enr_success = True, enr_status = CONFIRMED,
                   enr_message = ''Student already enrolled'', waitlist_position = None\<rparr>, svc)"
  using assms by (simp add: enroll_student_def)

lemmas enrollment_defs = outcome_of_def thread1_def student_def section_with_def
  EnrollmentService_init_def ConcurrencyManager_init_def default_policies_def
  PrerequisiteCheckPolicy_def QuotaPolicy_def PriorityPolicy_def enrolled_count_def
  enroll_student_def drop_student_def is_enrolled_def enroll_student_direct_def
  add_to_waitlist_def waitlist_of_def index_in_def publish_event_def leave_lock_def
  remove_enrollment_def remove_from_waitlist_def promote_next_def
  confirmed_students_def acquire_lock_def can_acquire_lock_def locks_of_def
  ids_of_def set_add_def release_lock_def LockType_value_def Let_def

text \<open>
  C2 fails on the code. \<open>enroll_student\<close> compares \<open>section.enrolled_count\<close> with
  the capacity, and that count is the size of the section's own set, which the service
  never extends. Three students enrolling in order into an empty section of capacity 2
  are all confirmed, and nobody is waitlisted.
\<close>

theorem capacity_not_enforced:
  "outcome_of (run_enrollment_ops (EnrollmentService_init ConcurrencyManager_init)
      [Enroll thread1 (student ''A'') (section_with 2 []),
       Enroll thread1 (student ''B'') (section_with 2 []),
       Enroll thread1 (student ''C'') (section_with 2 [])]) ''SEC1''
   = Some ([(True, CONFIRMED, None), (True, CONFIRMED, None), (True, CONFIRMED, None)],
           [''A'', ''B'', ''C''], [])"
  by (simp add: enrollment_defs)

text \<open>
  \<open>drop_student\<close> refuses every student who is not confirmed, and changes nothing.
\<close>

lemma drop_requires_confirmed:
  "\<not> is_enrolled svc sid secid \<Longrightarrow>
   drop_student svc dr sid secid
     = Inr (\<lparr>enr_success = False, enr_status = DROPPED,
             enr_message = ''Student not enrolled in this section'',
             waitlist_position = None\<rparr>, svc)"
  by (simp add: drop_student_def)

text \<open>
  C5 fails on the code. A student who enrolls into a full section is waitlisted at
  position 1; the drop of that student is refused (\<open>_is_enrolled\<close> asks for a confirmed
  record) and the student stays on the waitlist.
\<close>

theorem waitlisted_student_cannot_drop:
  "outcome_of (run_enrollment_ops (EnrollmentService_init ConcurrencyManager_init)
      [Enroll thread1 (student ''A'') (section_with 2 [''X'', ''Y'']),
       Drop thread1 ''A'' ''SEC1'']) ''SEC1''
   = Some ([(True, WAITLISTED, Some 1), (False, DROPPED, None)], [], [''A''])"
  by (simp add: enrollment_defs)

text \<open>
  C6 as stated fails. T1 is confirmed in a section of capacity 1; S and T are
  waitlisted in that order; the capacity is raised to 2 and S enrolls again: S is
  confirmed and stays on the waitlist. The section is now full (T1 and S of 2) with the
  waitlist S, T. Dropping the confirmed student S removes S from the waitlist as well and
  promotes T: the waitlist shrinks by two, and the promoted student is not the one that
  was at its head.
\<close>

theorem drop_of_waiting_confirmed_student:
  "outcome_of (run_enrollment_ops (EnrollmentService_init ConcurrencyManager_init)
      [Enroll thread1 (student ''T1'') (section_with 1 []),
       Enroll thread1 (student ''S'') (section_with 1 [''T1'']),
       Enroll thread1 (student ''T'') (section_with 1 [''T1'']),
       Enroll thread1 (student ''S'') (section_with 2 [''T1''])]) ''SEC1''
   = Some ([(True, CONFIRMED, None), (True, WAITLISTED, Some 1), (True, WAITLISTED, Some 2),
            (True, CONFIRMED, None)], [''T1'', ''S''], [''S'', ''T''])
   \<and> outcome_of (run_enrollment_ops (EnrollmentService_init ConcurrencyManager_init)
      [Enroll thread1 (student ''T1'') (section_with 1 []),
       Enroll thread1 (student ''S'') (section_with 1 [''T1'']),
       Enroll thread1 (student ''T'') (section_with 1 [''T1'']),
       Enroll thread1 (student ''S'') (section_with 2 [''T1'']),
       Drop thread1 ''S'' ''SEC1'']) ''SEC1''
   = Some ([(True, CONFIRMED, None), (True, WAITLISTED, Some 1), (True, WAITLISTED, Some 2),
            (True, CONFIRMED, None), (True, DROPPED, None)], [''T1'', ''T''], [])"
  by (simp add: enrollment_defs)


text \<open>The promotion on a section with one confirmed student and two waiting.\<close>

theorem drop_promotes_waitlist_head_witness:
  "\<exists>svc'. drop_student full_section_service thread1 ''A'' ''SEC1''
                  = Inr (\<lparr>enr_success = True, enr_status = DROPPED,
                          enr_message = ''Student dropped successfully'',
                          waitlist_position = None\<rparr>, svc')
           \<and> waitlist_of svc' ''SEC1'' = [''C'']
           \<and> status_of svc' ''B'' ''SEC1'' = Some CONFIRMED
           \<and> status_of svc' ''A'' ''SEC1'' = None"
proof -
  have "is_enrolled full_section_service ''A'' ''SEC1''"
    by (simp add: is_enrolled_def full_section_service_def)
  moreover have "waitlist_of full_section_service ''SEC1'' = [''B'', ''C'']"
    by (simp add: waitlist_of_def full_section_service_def)
  moreover have "can_acquire_lock (concurrency_manager full_section_service)
      (''enrollment_'' @ ''SEC1'') WRITE (''enrollment_service_'' @ thread_ident thread1) = Inr True"
    by (simp add: full_section_service_def enrollment_defs)
  ultimately show ?thesis
    using drop_promotes_waitlist_head [of full_section_service "''A''" "''SEC1''" "''B''"
        "[''C'']" thread1]
    by auto
qed

text \<open>Enrolling the confirmed student of \<open>full_section_service\<close> again.\<close>

theorem enroll_confirmed_is_idempotent_witness:
  "enroll_student full_section_service thread1 (student ''A'') (section_with 1 [''A''])
     = Inr (\<lparr>enr_success = True, enr_status = CONFIRMED,
             enr_message = ''Student already enrolled'', waitlist_position = None\<rparr>,
            full_section_service)"
proof -
  have "is_enrolled full_section_service (student_id (student ''A''))
          (section_id (section_with 1 [''A'']))"
    by (simp add: is_enrolled_def full_section_service_def student_def section_with_def)
  then show ?thesis by (rule enroll_confirmed_is_idempotent)
qed


section \<open>Scheduling: conflicts and the repeated cancel\<close>

lemmas scheduler_defs = scheduler_outcome_def SchedulerService_init_def ConcurrencyManager_init_def
  room101_def monday_9_to_10_def request_slot_def thread1_def add_room_def schedule_section_def
  cancel_schedule_def find_suitable_rooms_def suitable_def required_min_capacity_def
  check_scheduling_conflicts_def leave_scheduler_lock_def overlaps_with_def live_schedules_def
  clash_def no_room_overlap_def acquire_lock_def can_acquire_lock_def locks_of_def ids_of_def
  set_add_def release_lock_def LockType_value_def Let_def

text \<open>
  C7 fails on the code. A schedule is booked into room 101 for Monday 9 to 10 and
  cancelled; a second schedule is booked into the freed slot; the first schedule is
  cancelled once more. \<open>cancel_schedule\<close> does not look at the status: it removes the
  slot equal to the cancelled schedule's slot from the room's ledger again, and that slot
  is now the booking of the second schedule. A third request for the same slot finds the
  ledger empty and is accepted. Every call answers \<open>True\<close>, and at the end two live
  records hold the same slot of the same room.
\<close>

theorem second_cancel_frees_foreign_slot:
  "scheduler_outcome (run_scheduler_ops (SchedulerService_init ConcurrencyManager_init)
      [AddRoom room101,
       Schedule thread1 ''sch-1'' (request_slot ''SEC-A''),
       Cancel ''sch-1'',
       Schedule thread1 ''sch-2'' (request_slot ''SEC-B''),
       Cancel ''sch-1'',
       Schedule thread1 ''sch-3'' (request_slot ''SEC-C'')])
   = Some ([True, True, True, True, True],
           [(''sch-2'', ''room-101'', [monday_9_to_10]), (''sch-3'', ''room-101'', [monday_9_to_10])],
           False)
   \<and> overlaps_with monday_9_to_10 monday_9_to_10"
  by (simp add: scheduler_defs)

text \<open>Without the repeated cancel the second request for the slot is rejected.\<close>

lemma second_request_rejected:
  "scheduler_outcome (run_scheduler_ops (SchedulerService_init ConcurrencyManager_init)
      [AddRoom room101,
       Schedule thread1 ''sch-1'' (request_slot ''SEC-A''),
       Schedule thread1 ''sch-2'' (request_slot ''SEC-B'')])
   = Some ([True, False], [(''sch-1'', ''room-101'', [monday_9_to_10])], True)"
  by (simp add: scheduler_defs)

lemma find_suitable_rooms_cm [simp]:
  "find_suitable_rooms (svc\<lparr>scheduler_cm := cm\<rparr>) request = find_suitable_rooms svc request"
  by (simp add: find_suitable_rooms_def)

lemma check_scheduling_conflicts_cm [simp]:
  "check_scheduling_conflicts (svc\<lparr>scheduler_cm := cm\<rparr>) request room
     = check_scheduling_conflicts svc request room"
  by (simp add: check_scheduling_conflicts_def)

lemma overlap_is_a_conflict:
  assumes "slot \<in> set (time_slots request)"
    and "existing \<in> set (get_room_schedule svc (room_id room))"
    and "overlaps_with slot existing"
  shows "check_scheduling_conflicts svc request room \<noteq> []"
proof -
  have "filter (\<lambda>existing_slot. overlaps_with slot existing_slot)
          (case map_of (room_assignments svc) (room_id room) of
             None \<Rightarrow> [] | Some assigned \<Rightarrow> assigned) \<noteq> []"
    using assms(2,3) by (auto simp: get_room_schedule_def filter_empty_conv)
  with assms(1) show ?thesis
    by (auto simp: check_scheduling_conflicts_def)
qed

text \<open>
  The second half of C7 holds: a request with a slot that overlaps a slot in the ledger
  of the selected room is answered with \<open>success = False\<close> and a non-empty conflicts
  list, and changes neither the schedule table nor the ledgers.
\<close>

lemma overlapping_request_is_rejected:
  assumes run: "schedule_section svc dr new_schedule_id request = Inr (res, svc')"
    and best: "find_suitable_rooms svc request = best_room # others"
    and slot: "slot \<in> set (time_slots request)"
    and existing: "existing \<in> set (get_room_schedule svc (room_id best_room))"
    and overlap: "overlaps_with slot existing"
  shows "\<not> sch_success res \<and> conflicts res \<noteq> [] \<and> schedules svc' = schedules svc
         \<and> room_assignments svc' = room_assignments svc"
proof -
  have found: "check_scheduling_conflicts svc request best_room \<noteq> []"
    using slot existing overlap by (rule overlap_is_a_conflict)
  show ?thesis
    using run best found
    by (auto simp: schedule_section_def Let_def leave_scheduler_lock_def
        split: sum.splits exn.splits bool.splits prod.splits)
qed

end
